theory Spec2Isabelle
  imports Complex_Main
begin

section \<open>Belgian real-estate agents dashboard: loader, enricher, orchestrator\<close>

text \<open>
  A shallow embedding of \<^verbatim>\<open>app.py\<close>. The functions of the program
  (\<^verbatim>\<open>load_data\<close>, \<^verbatim>\<open>get_coordinates\<close>, \<^verbatim>\<open>enrich_with_coords\<close>,
  \<^verbatim>\<open>build_bar_chart\<close>, \<^verbatim>\<open>build_map\<close>, \<^verbatim>\<open>main\<close>) are translated
  statement by statement. The operations of Python and pandas they call (\<^verbatim>\<open>str.replace\<close>,
  \<^verbatim>\<open>str.strip\<close>, \<^verbatim>\<open>dict.get\<close>, column access and assignment, \<^verbatim>\<open>DataFrame.copy\<close>,
  \<^verbatim>\<open>DataFrame.drop\<close>, \<^verbatim>\<open>to_numeric\<close>) are library code; each is given a small model of
  its documented behaviour, with every exception it can raise as an error value.
\<close>

subsection \<open>Python values\<close>

text \<open>
  A Python \<^verbatim>\<open>str\<close> is a sequence of Unicode code points (the euro sign is one
  character, U+20AC). \<open>ustr\<close> reads an ASCII literal as such a sequence.
\<close>

type_synonym pystr = "nat list"

definition ustr :: "string \<Rightarrow> pystr" where
  "ustr s = map of_char s"

definition euro :: nat where
  "euro = 8364"

text \<open>
  A numeric value as pandas holds it in an \<^verbatim>\<open>int64\<close> or \<^verbatim>\<open>float64\<close> column:
  a finite number, an infinity, or NaN, which is pandas' missing value. \<open>Fin r\<close> is the
  number \<open>r\<close> itself, whatever the dtype. \<open>Approx r\<close> is the value that binary
  floating point makes of \<open>r\<close> where the model does not compute it: \<open>r\<close> rounded to a
  double (an infinity or zero when \<open>r\<close> is out of range), or \<open>r\<close> itself when the column
  stays \<^verbatim>\<open>int64\<close>.
\<close>

datatype pynum = Fin rat | Approx rat | PosInf | NegInf | NaN

text \<open>The scalars a column read by \<^verbatim>\<open>read_csv\<close> can hold.\<close>

datatype cell = CStr pystr | CNum pynum | CBool bool

definition is_missing :: "cell \<Rightarrow> bool" where
  "is_missing c = (c = CNum NaN)"

text \<open>
  Two conversions of Python are taken as given: the text \<^verbatim>\<open>str()\<close> makes of a finite
  number, which depends on its dtype (\<^verbatim>\<open>1234\<close> or \<^verbatim>\<open>1234.0\<close>) and on the shortest
  decimal form of a double, and the number \<^verbatim>\<open>float()\<close> reads from a text, \<open>None\<close>
  where it raises \<^verbatim>\<open>ValueError\<close>.
\<close>

record pyconv =
  num_to_str :: "pynum \<Rightarrow> pystr"
  str_to_float :: "pystr \<Rightarrow> pynum option"

text \<open>
  The exceptions the program can meet; \<open>ReadError\<close> stands for any failure of
  \<^verbatim>\<open>read_csv\<close> on a path that exists (a directory, a file that is not a table).
\<close>

datatype error =
    KeyError
  | ValueError
  | TypeError
  | FileNotFoundError
  | ReadError

subsection \<open>String operations\<close>

text \<open>
  \<^verbatim>\<open>s.replace(old, new)\<close>: every non-overlapping occurrence of \<open>old\<close>, found
  from the left, is replaced by \<open>new\<close>; an empty \<open>old\<close> matches between all characters.
\<close>

fun str_replace :: "pystr \<Rightarrow> pystr \<Rightarrow> pystr \<Rightarrow> pystr" where
  "str_replace old new [] = (if old = [] then new else [])"
| "str_replace old new (c # cs) =
     (if old = [] then new @ c # str_replace old new cs
      else if take (length old) (c # cs) = old
        then new @ str_replace old new (drop (length old) (c # cs))
      else c # str_replace old new cs)"

text \<open>
  \<^verbatim>\<open>str.isspace\<close> for one character: the code points Python treats as whitespace.
\<close>

definition py_isspace :: "nat \<Rightarrow> bool" where
  "py_isspace c =
     ((9 \<le> c \<and> c \<le> 13) \<or> (28 \<le> c \<and> c \<le> 32) \<or> c = 133 \<or> c = 160 \<or> c = 5760
      \<or> (8192 \<le> c \<and> c \<le> 8202) \<or> c = 8232 \<or> c = 8233 \<or> c = 8239 \<or> c = 8287
      \<or> c = 12288)"

text \<open>\<^verbatim>\<open>s.strip()\<close>: leading and trailing whitespace removed.\<close>

definition str_strip :: "pystr \<Rightarrow> pystr" where
  "str_strip s = rev (dropWhile py_isspace (rev (dropWhile py_isspace s)))"

subsection \<open>Numeric parsing: \<^verbatim>\<open>pandas.to_numeric\<close> on strings\<close>

text \<open>
  \<^verbatim>\<open>to_numeric\<close> parses each string as a decimal literal:
  optional ASCII whitespace, an optional sign, digits with an optional decimal point
  (at least one digit in all), an optional exponent \<^verbatim>\<open>e\<close> or \<^verbatim>\<open>E\<close> with an optional
  sign and at least one digit, optional trailing whitespace, and nothing else; or one of the
  words \<^verbatim>\<open>nan\<close>, \<^verbatim>\<open>inf\<close>, \<^verbatim>\<open>infinity\<close> in any letter case, the last two with an
  optional sign. Each string is parsed on its own; the dtype of the resulting column
  (\<^verbatim>\<open>int64\<close> when every value is an integer, else \<^verbatim>\<open>float64\<close>) depends on the
  other rows, so a value is given as \<open>Fin\<close> only where both dtypes hold it exactly.
\<close>

definition is_digit :: "nat \<Rightarrow> bool" where
  "is_digit c = (48 \<le> c \<and> c \<le> 57)"

definition is_space_ascii :: "nat \<Rightarrow> bool" where
  "is_space_ascii c = (c = 32 \<or> (9 \<le> c \<and> c \<le> 13))"

definition digits_val :: "pystr \<Rightarrow> nat" where
  "digits_val ds = foldl (\<lambda>acc c. 10 * acc + (c - 48)) 0 ds"

definition take_sign :: "pystr \<Rightarrow> bool \<times> pystr" where
  "take_sign s =
     (case s of
        [] \<Rightarrow> (False, [])
      | c # r \<Rightarrow> if c = 45 then (True, r) else if c = 43 then (False, r) else (False, s))"

definition scale10 :: "rat \<Rightarrow> int \<Rightarrow> rat" where
  "scale10 m e = (if 0 \<le> e then m * 10 ^ nat e else m / 10 ^ nat (- e))"

definition dec_value :: "bool \<Rightarrow> pystr \<Rightarrow> pystr \<Rightarrow> int \<Rightarrow> rat" where
  "dec_value neg ip fp e =
     (let m = scale10 (of_nat (digits_val (ip @ fp))) (e - int (length fp))
      in if neg then - m else m)"

text \<open>
  The number a literal stands for, \<open>dec_value\<close>, is what the parser returns when it is
  an integer of magnitude at most \<open>2 ^ 53\<close>, written with at most 15 digits and scaled by
  a power of ten of at most 22: then the digits, the power of ten and the result are all
  exact in a double, and in \<^verbatim>\<open>int64\<close>. In every other case the parser returns a
  rounded value, which the model leaves open as \<open>Approx\<close>.
\<close>

definition literal_num :: "bool \<Rightarrow> pystr \<Rightarrow> pystr \<Rightarrow> int \<Rightarrow> pynum" where
  "literal_num neg ip fp e =
     (let v = dec_value neg ip fp e;
          k = e - int (length fp)
      in if length (ip @ fp) \<le> 15 \<and> \<bar>k\<bar> \<le> 22 \<and> of_int \<lfloor>v\<rfloor> = v \<and> \<bar>v\<bar> \<le> 2 ^ 53
         then Fin v else Approx v)"

definition parse_exponent :: "pystr \<Rightarrow> (int \<times> pystr) option" where
  "parse_exponent s =
     (case s of
        [] \<Rightarrow> Some (0, [])
      | c # r \<Rightarrow>
          if c = 101 \<or> c = 69 then
            (let (neg, r') = take_sign r;
                 ds = takeWhile is_digit r'
             in if ds = [] then None
                else Some ((if neg then - int (digits_val ds) else int (digits_val ds)),
                           dropWhile is_digit r'))
          else Some (0, s))"

definition parse_decimal :: "pystr \<Rightarrow> pynum option" where
  "parse_decimal s0 =
     (let s1 = dropWhile is_space_ascii s0;
          (neg, s2) = take_sign s1;
          ip = takeWhile is_digit s2;
          s3 = dropWhile is_digit s2;
          (fp, s4) = (case s3 of
                        [] \<Rightarrow> ([], s3)
                      | c # r \<Rightarrow> if c = 46 then (takeWhile is_digit r, dropWhile is_digit r)
                                 else ([], s3))
      in if ip = [] \<and> fp = [] then None
         else (case parse_exponent s4 of
                 None \<Rightarrow> None
               | Some (e, s5) \<Rightarrow>
                   if dropWhile is_space_ascii s5 = [] then Some (literal_num neg ip fp e)
                   else None))"

definition ascii_lower :: "pystr \<Rightarrow> pystr" where
  "ascii_lower s = map (\<lambda>c. if 65 \<le> c \<and> c \<le> 90 then c + 32 else c) s"

definition parse_special :: "pystr \<Rightarrow> pynum option" where
  "parse_special s =
     (let l = ascii_lower s
      in if l = ustr ''nan'' then Some NaN
         else if l \<in> set [ustr ''inf'', ustr ''+inf'', ustr ''infinity'', ustr ''+infinity'']
           then Some PosInf
         else if l \<in> set [ustr ''-inf'', ustr ''-infinity''] then Some NegInf
         else None)"

definition floatify :: "pystr \<Rightarrow> pynum option" where
  "floatify s =
     (case parse_decimal s of
        Some v \<Rightarrow> Some v
      | None \<Rightarrow> parse_special s)"

text \<open>
  The \<^verbatim>\<open>errors\<close> argument: with \<^verbatim>\<open>"raise"\<close> a string that does not parse is a
  \<^verbatim>\<open>ValueError\<close>; with \<^verbatim>\<open>"coerce"\<close> it becomes NaN.
\<close>

datatype errors_mode = Raise | Coerce

definition to_numeric1 :: "errors_mode \<Rightarrow> pystr \<Rightarrow> error + pynum" where
  "to_numeric1 errs s =
     (case floatify s of
        Some v \<Rightarrow> Inr v
      | None \<Rightarrow> (case errs of Raise \<Rightarrow> Inl ValueError | Coerce \<Rightarrow> Inr NaN))"

fun to_numeric :: "errors_mode \<Rightarrow> pystr list \<Rightarrow> error + pynum list" where
  "to_numeric errs [] = Inr []"
| "to_numeric errs (s # ss) =
     (case to_numeric1 errs s of
        Inl e \<Rightarrow> Inl e
      | Inr v \<Rightarrow> (case to_numeric errs ss of Inl e \<Rightarrow> Inl e | Inr vs \<Rightarrow> Inr (v # vs)))"

subsection \<open>Data frames\<close>

text \<open>
  A \<^verbatim>\<open>DataFrame\<close>: the length of its index and its columns in order, each a name
  and the cells of that column. In a well-formed frame the names are distinct (as
  \<^verbatim>\<open>read_csv\<close> makes them) and every column has as many cells as the index.
\<close>

record dataframe =
  nrows :: nat
  cols :: "(pystr \<times> cell list) list"

definition wf_df :: "dataframe \<Rightarrow> bool" where
  "wf_df df = (distinct (map fst (cols df)) \<and> list_all (\<lambda>(n, c). length c = nrows df) (cols df))"

definition columns :: "dataframe \<Rightarrow> pystr list" where
  "columns df = map fst (cols df)"

text \<open>\<^verbatim>\<open>df[name]\<close>: the column, or \<^verbatim>\<open>KeyError\<close>.\<close>

definition df_getitem :: "dataframe \<Rightarrow> pystr \<Rightarrow> error + cell list" where
  "df_getitem df name =
     (case map_of (cols df) name of None \<Rightarrow> Inl KeyError | Some c \<Rightarrow> Inr c)"

text \<open>
  \<^verbatim>\<open>df[name] = values\<close> for a list of values: an existing column is overwritten in
  place, a new one is appended after the others. A list of the wrong length is a
  \<^verbatim>\<open>ValueError\<close>, except on a frame with an empty index, which takes the length of the
  list and fills its other columns with NaN.
\<close>

definition put_column :: "dataframe \<Rightarrow> pystr \<Rightarrow> cell list \<Rightarrow> dataframe" where
  "put_column df name vals =
     df\<lparr>cols :=
          (if name \<in> set (columns df)
           then map (\<lambda>(n, c). if n = name then (n, vals) else (n, c)) (cols df)
           else cols df @ [(name, vals)])\<rparr>"

definition df_setitem :: "dataframe \<Rightarrow> pystr \<Rightarrow> cell list \<Rightarrow> error + dataframe" where
  "df_setitem df name vals =
     (if length vals = nrows df then Inr (put_column df name vals)
      else if nrows df = 0
        then Inr (put_column
                    (df\<lparr>nrows := length vals,
                        cols := map (\<lambda>(n, c). (n, replicate (length vals) (CNum NaN))) (cols df)\<rparr>)
                    name vals)
      else Inl ValueError)"

text \<open>
  \<^verbatim>\<open>df.drop(columns=names)\<close>: a new frame without these columns; a name that is not a
  column is a \<^verbatim>\<open>KeyError\<close>.
\<close>

definition df_drop :: "dataframe \<Rightarrow> pystr list \<Rightarrow> error + dataframe" where
  "df_drop df names =
     (if list_all (\<lambda>n. n \<in> set (columns df)) names
      then Inr (df\<lparr>cols := filter (\<lambda>(n, c). n \<notin> set names) (cols df)\<rparr>)
      else Inl KeyError)"

subsection \<open>The loader\<close>

text \<open>
  The file system as the program sees it: at a path there is nothing, or something that
  \<^verbatim>\<open>pd.read_csv\<close> either reads into a frame or fails on. A path is the list of its
  components.
\<close>

type_synonym path = "pystr list"

type_synonym filesystem = "path \<Rightarrow> (error + dataframe) option"

definition path_exists :: "filesystem \<Rightarrow> path \<Rightarrow> bool" where
  "path_exists fs p = (fs p \<noteq> None)"

definition read_csv :: "filesystem \<Rightarrow> path \<Rightarrow> error + dataframe" where
  "read_csv fs p = (case fs p of None \<Rightarrow> Inl FileNotFoundError | Some r \<Rightarrow> r)"

text \<open>
  \<^verbatim>\<open>astype(str)\<close> on one cell; the text of a finite number is given by the
  conversions \<open>fmt\<close>.
\<close>

definition astype_str :: "pyconv \<Rightarrow> cell \<Rightarrow> pystr" where
  "astype_str fmt c =
     (case c of
        CStr s \<Rightarrow> s
      | CNum (Fin r) \<Rightarrow> num_to_str fmt (Fin r)
      | CNum (Approx r) \<Rightarrow> num_to_str fmt (Approx r)
      | CNum PosInf \<Rightarrow> ustr ''inf''
      | CNum NegInf \<Rightarrow> ustr ''-inf''
      | CNum NaN \<Rightarrow> ustr ''nan''
      | CBool b \<Rightarrow> (if b then ustr ''True'' else ustr ''False''))"

definition profit_column :: pystr where
  "profit_column = ustr ''Latest profit after tax ('' @ [euro] @ ustr '')''"

text \<open>Lines 36 to 42 of \<^verbatim>\<open>load_data\<close>, on one cell of the profit column.\<close>

definition clean1 :: "pyconv \<Rightarrow> cell \<Rightarrow> pystr" where
  "clean1 fmt c =
     str_strip
       (str_replace (ustr '' '') []
          (str_replace (ustr '','') []
             (str_replace [euro] [] (astype_str fmt c))))"

definition load_data :: "pyconv \<Rightarrow> filesystem \<Rightarrow> path \<Rightarrow> error + dataframe" where
  "load_data fmt fs csv_path =
     (case read_csv fs csv_path of
        Inl e \<Rightarrow> Inl e
      | Inr df \<Rightarrow>
          (case df_getitem df profit_column of
             Inl e \<Rightarrow> Inl e
           | Inr raw \<Rightarrow>
               (let cleaned = map (clean1 fmt) raw
                in case to_numeric Coerce cleaned of
                     Inl e \<Rightarrow> Inl e
                   | Inr vals \<Rightarrow> df_setitem df (ustr ''Profit'') (map CNum vals))))"

subsection \<open>The coordinate table and the enricher\<close>

text \<open>
  A \<^verbatim>\<open>dict\<close> with string keys is the list of its items in insertion order.
  \<^verbatim>\<open>d.get(key, default)\<close> returns the value stored under an equal key, else the
  default; \<open>None\<close> stands for Python's \<^verbatim>\<open>None\<close>. The key looked up may be any
  scalar: a number or a boolean is hashable and equal to no string.
\<close>

type_synonym 'v pydict = "(pystr \<times> 'v) list"

definition dict_get :: "'v pydict \<Rightarrow> cell \<Rightarrow> 'v option \<Rightarrow> 'v option" where
  "dict_get d key dflt =
     (case key of
        CStr s \<Rightarrow> (case map_of d s of Some v \<Rightarrow> Some v | None \<Rightarrow> dflt)
      | CNum x \<Rightarrow> dflt
      | CBool b \<Rightarrow> dflt)"

definition get_coordinates :: "(rat \<times> rat) pydict" where
  "get_coordinates =
     [(ustr ''Waterloo'', (50.7219, 4.3997)),
      (ustr ''Brussels'', (50.8466, 4.3528)),
      (ustr ''Strombeek-Bever'', (50.9050, 4.3681)),
      (ustr ''Brussels (Uccle)'', (50.7997, 4.3476)),
      (ustr ''Sint-Niklaas'', (51.1642, 4.1439)),
      (ustr ''Brussels (Ixelles)'', (50.8287, 4.3676)),
      (ustr ''Brussels (1000)'', (50.8466, 4.3528))]"

text \<open>
  Line 79, \<^verbatim>\<open>coords.get(loc, coords.get("Brussels"))\<close>, and the loop of
  \<^verbatim>\<open>enrich_with_coords\<close> (lines 77 to 81) over the cells of the Locality column, with
  the two lists it appends to. Unpacking \<^verbatim>\<open>None\<close> into \<^verbatim>\<open>lat, lon\<close> would be a
  \<^verbatim>\<open>TypeError\<close>.
\<close>

definition lookup_coords :: "(rat \<times> rat) pydict \<Rightarrow> cell \<Rightarrow> (rat \<times> rat) option" where
  "lookup_coords coords loc =
     dict_get coords loc (dict_get coords (CStr (ustr ''Brussels'')) None)"

fun coords_loop ::
  "(rat \<times> rat) pydict \<Rightarrow> cell list \<Rightarrow> rat list \<Rightarrow> rat list \<Rightarrow> error + (rat list \<times> rat list)"
where
  "coords_loop coords [] latitudes longitudes = Inr (latitudes, longitudes)"
| "coords_loop coords (loc # rest) latitudes longitudes =
     (case lookup_coords coords loc of
        None \<Rightarrow> Inl TypeError
      | Some (lat, lon) \<Rightarrow> coords_loop coords rest (latitudes @ [lat]) (longitudes @ [lon]))"

text \<open>
  Frames are objects: a store holds them by address, and \<^verbatim>\<open>df.copy()\<close> allocates a
  new object with the same contents. A reference the program holds is an address below
  the length of the store.
\<close>

type_synonym ref = nat

type_synonym store = "dataframe list"

definition df_copy :: "store \<Rightarrow> ref \<Rightarrow> store \<times> ref" where
  "df_copy st r = (st @ [st ! r], length st)"

definition float_cells :: "rat list \<Rightarrow> cell list" where
  "float_cells xs = map (\<lambda>x. CNum (Fin x)) xs"

text \<open>
  \<^verbatim>\<open>enrich_with_coords\<close> on the frame at address \<open>r\<close>: the store afterwards, and the
  address of the returned frame or the exception raised.
\<close>

definition enrich_with_coords_obj :: "store \<Rightarrow> ref \<Rightarrow> store \<times> (error + ref)" where
  "enrich_with_coords_obj st r =
     (let coords = get_coordinates
      in case df_getitem (st ! r) (ustr ''Locality'') of
           Inl e \<Rightarrow> (st, Inl e)
         | Inr locs \<Rightarrow>
             (case coords_loop coords locs [] [] of
                Inl e \<Rightarrow> (st, Inl e)
              | Inr (latitudes, longitudes) \<Rightarrow>
                  (let (st1, r1) = df_copy st r
                   in case df_setitem (st1 ! r1) (ustr ''Latitude'') (float_cells latitudes) of
                        Inl e \<Rightarrow> (st1, Inl e)
                      | Inr d1 \<Rightarrow>
                          (let st2 = st1[r1 := d1]
                           in case df_setitem (st2 ! r1) (ustr ''Longitude'')
                                     (float_cells longitudes) of
                                Inl e \<Rightarrow> (st2, Inl e)
                              | Inr d2 \<Rightarrow> (st2[r1 := d2], Inr r1)))))"

text \<open>The same call seen from a caller that holds the frame by value, as \<^verbatim>\<open>main\<close> does.\<close>

definition enrich_with_coords :: "dataframe \<Rightarrow> error + dataframe" where
  "enrich_with_coords df =
     (case enrich_with_coords_obj [df] 0 of
        (st, Inl e) \<Rightarrow> Inl e
      | (st, Inr r) \<Rightarrow> Inr (st ! r))"

subsection \<open>The presenter and the orchestrator\<close>

text \<open>
  What the program hands to the rendering libraries, in call order. A map is the list of
  the elements added to it.
\<close>

datatype map_element =
    Marker cell cell cell cell
  | PolyLine "(pynum \<times> pynum) list"

datatype ui_call =
    SetPageConfig pystr
  | Title pystr
  | Header pystr
  | Dataframe dataframe
  | PlotlyChart "cell list" "cell list"
  | FoliumStatic "map_element list"

text \<open>
  \<^verbatim>\<open>build_bar_chart\<close>: the chart takes the columns Name and Profit of the frame;
  \<^verbatim>\<open>px.bar\<close> rejects a frame without one of them with a \<^verbatim>\<open>ValueError\<close>.
\<close>

definition build_bar_chart :: "dataframe \<Rightarrow> error + ui_call" where
  "build_bar_chart df =
     (case df_getitem df (ustr ''Name'') of
        Inl e \<Rightarrow> Inl ValueError
      | Inr xs \<Rightarrow>
          (case df_getitem df (ustr ''Profit'') of
             Inl e \<Rightarrow> Inl ValueError
           | Inr ys \<Rightarrow> Inr (PlotlyChart xs ys)))"

text \<open>
  \<^verbatim>\<open>row[name]\<close> for the row at position \<open>i\<close>, as \<^verbatim>\<open>iterrows\<close> yields it.
\<close>

definition row_get :: "dataframe \<Rightarrow> nat \<Rightarrow> pystr \<Rightarrow> error + cell" where
  "row_get df i name =
     (case map_of (cols df) name of None \<Rightarrow> Inl KeyError | Some c \<Rightarrow> Inr (c ! i))"

definition center :: "pynum \<times> pynum" where
  "center = (Fin 50.8466, Fin 4.3528)"

text \<open>
  folium converts each coordinate of a location with \<^verbatim>\<open>float()\<close>: a number is
  itself, a boolean counts as 0 or 1, a text is read by \<^verbatim>\<open>float()\<close>. A coordinate
  that does not convert, or converts to NaN, is refused by \<^verbatim>\<open>folium.Marker\<close> with a
  \<^verbatim>\<open>ValueError\<close>.
\<close>

definition py_float :: "pyconv \<Rightarrow> cell \<Rightarrow> pynum option" where
  "py_float fmt c =
     (case c of
        CNum x \<Rightarrow> Some x
      | CStr s \<Rightarrow> str_to_float fmt s
      | CBool b \<Rightarrow> Some (Fin (if b then 1 else 0)))"

definition location :: "pyconv \<Rightarrow> cell \<Rightarrow> cell \<Rightarrow> error + (pynum \<times> pynum)" where
  "location fmt lat lon =
     (case py_float fmt lat of
        None \<Rightarrow> Inl ValueError
      | Some la \<Rightarrow>
          (case py_float fmt lon of
             None \<Rightarrow> Inl ValueError
           | Some lo \<Rightarrow> if la = NaN \<or> lo = NaN then Inl ValueError else Inr (la, lo)))"

text \<open>The loop of \<^verbatim>\<open>build_map\<close> (lines 116 to 122) over the row positions.\<close>

fun map_loop ::
  "pyconv \<Rightarrow> dataframe \<Rightarrow> nat list \<Rightarrow> map_element list \<Rightarrow> error + map_element list"
where
  "map_loop fmt df [] m = Inr m"
| "map_loop fmt df (i # rest) m =
     (case row_get df i (ustr ''Latitude'') of
        Inl e \<Rightarrow> Inl e
      | Inr lat \<Rightarrow>
          (case row_get df i (ustr ''Longitude'') of
             Inl e \<Rightarrow> Inl e
           | Inr lon \<Rightarrow>
               (case row_get df i (ustr ''Name'') of
                  Inl e \<Rightarrow> Inl e
                | Inr name \<Rightarrow>
                    (case row_get df i (ustr ''Address'') of
                       Inl e \<Rightarrow> Inl e
                     | Inr address \<Rightarrow>
                         (case location fmt lat lon of
                            Inl e \<Rightarrow> Inl e
                          | Inr p \<Rightarrow>
                              map_loop fmt df rest
                                (m @ [Marker lat lon name address, PolyLine [center, p]]))))))"

definition build_map :: "pyconv \<Rightarrow> dataframe \<Rightarrow> error + ui_call" where
  "build_map fmt df =
     (case map_loop fmt df [0..<nrows df] [] of
        Inl e \<Rightarrow> Inl e
      | Inr m \<Rightarrow> Inr (FoliumStatic m))"

definition csv_name :: pystr where
  "csv_name = ustr ''belgian_real_estate_agents.csv''"

definition coord_columns :: "pystr list" where
  "coord_columns = [ustr ''Latitude'', ustr ''Longitude'']"

text \<open>
  \<^verbatim>\<open>Path.parent\<close>: the path without its last component; the parent of the root is the
  root.
\<close>

definition parent :: "path \<Rightarrow> path" where
  "parent p = butlast p"

text \<open>Lines 134 to 137 of \<^verbatim>\<open>main\<close>: the path that is loaded.\<close>

definition resolve_csv_path :: "filesystem \<Rightarrow> path \<Rightarrow> path" where
  "resolve_csv_path fs script_dir =
     (let local_csv = script_dir @ [csv_name];
          parent_csv = parent script_dir @ [csv_name]
      in if path_exists fs local_csv then local_csv else parent_csv)"

text \<open>The two titles of the page; their hyphen is the non-breaking one, U+2011.\<close>

definition page_title :: pystr where
  "page_title = ustr ''Belgian Real'' @ [8209] @ ustr ''estate Agents''"

definition page_heading :: pystr where
  "page_heading = ustr ''Belgian Real'' @ [8209] @ ustr ''estate Agents: Data Overview''"

text \<open>
  \<^verbatim>\<open>main\<close>, given the directory of the script: the calls made to the page, in order,
  and the exception that ended the run, if any.
\<close>

definition main :: "pyconv \<Rightarrow> filesystem \<Rightarrow> path \<Rightarrow> ui_call list \<times> error option" where
  "main fmt fs script_dir =
     (let ui0 = [SetPageConfig page_title, Title page_heading];
          csv_path = resolve_csv_path fs script_dir
      in case load_data fmt fs csv_path of
           Inl e \<Rightarrow> (ui0, Some e)
         | Inr df0 \<Rightarrow>
             (case enrich_with_coords df0 of
                Inl e \<Rightarrow> (ui0, Some e)
              | Inr df \<Rightarrow>
                  (let ui1 = ui0 @ [Header (ustr ''Data Table'')]
                   in case df_drop df coord_columns of
                        Inl e \<Rightarrow> (ui1, Some e)
                      | Inr shown \<Rightarrow>
                          (let ui2 = ui1 @ [Dataframe shown,
                                            Header (ustr ''Latest Profit After Tax (Euro)'')]
                           in case build_bar_chart df of
                                Inl e \<Rightarrow> (ui2, Some e)
                              | Inr chart \<Rightarrow>
                                  (let ui3 = ui2 @ [chart,
                                                    Header (ustr ''Map of Agents with Connectors'')]
                                   in case build_map fmt df of
                                        Inl e \<Rightarrow> (ui3, Some e)
                                      | Inr m \<Rightarrow> (ui3 @ [m], None))))))"

subsection \<open>A sample input\<close>

text \<open>
  A file of two agencies next to the script, in the directory \<^verbatim>\<open>/app\<close>: one in Waterloo
  with profit text \<^verbatim>\<open>"\<euro>1,234 "\<close>, one in a town the coordinate table does not know,
  with profit text \<^verbatim>\<open>"not disclosed"\<close>.
\<close>

definition sample_df :: dataframe where
  "sample_df =
     \<lparr>nrows = 2,
      cols = [(ustr ''Name'', [CStr (ustr ''Agency A''), CStr (ustr ''Agency B'')]),
              (ustr ''Address'', [CStr (ustr ''Rue A 1''), CStr (ustr ''Rue B 2'')]),
              (ustr ''Locality'', [CStr (ustr ''Waterloo''), CStr (ustr ''Unknown Town'')]),
              (profit_column,
               [CStr (euro # ustr ''1,234 ''), CStr (ustr ''not disclosed'')])]\<rparr>"

definition sample_dir :: path where
  "sample_dir = [ustr ''app'']"

definition sample_fs :: filesystem where
  "sample_fs p = (if p = sample_dir @ [csv_name] then Some (Inr sample_df) else None)"

definition sample_fmt :: pyconv where
  "sample_fmt = \<lparr>num_to_str = (\<lambda>x. []), str_to_float = (\<lambda>s. None)\<rparr>"

text \<open>The same file one directory above the script, and a disk without the file.\<close>

definition sample_fs_parent :: filesystem where
  "sample_fs_parent p = (if p = [csv_name] then Some (Inr sample_df) else None)"

definition sample_fs_empty :: filesystem where
  "sample_fs_empty p = None"

text \<open>A frame whose Locality column holds no text: an empty cell, a number, a boolean.\<close>

definition sample_df_odd :: dataframe where
  "sample_df_odd =
     \<lparr>nrows = 3,
      cols = [(ustr ''Name'', [CStr (ustr ''A''), CStr (ustr ''B''), CStr (ustr ''C'')]),
              (ustr ''Locality'', [CNum NaN, CNum (Fin 1000), CBool True])]\<rparr>"

text \<open>A disk with the sample file next to the script and another file one directory above.\<close>

definition sample_fs_both :: filesystem where
  "sample_fs_both p =
     (if p = sample_dir @ [csv_name] then Some (Inr sample_df)
      else if p = [csv_name] then Some (Inr sample_df_odd)
      else None)"

section \<open>Properties\<close>

subsection \<open>Cleaning and parsing\<close>

lemma str_replace_char: "str_replace [c] [] s = filter (\<lambda>x. x \<noteq> c) s"
  by (induction s) auto

lemma ustr_space: "ustr '' '' = [32]"
  by (simp add: ustr_def)

lemma ustr_comma: "ustr '','' = [44]"
  by (simp add: ustr_def)

lemma clean1_CStr:
  "clean1 fmt (CStr s) = str_strip (filter (\<lambda>c. c \<noteq> euro \<and> c \<noteq> 44 \<and> c \<noteq> 32) s)"
proof -
  have "filter (\<lambda>x. x \<noteq> 32) (filter (\<lambda>x. x \<noteq> 44) (filter (\<lambda>x. x \<noteq> euro) s))
        = filter (\<lambda>c. c \<noteq> euro \<and> c \<noteq> 44 \<and> c \<noteq> 32) s"
    by (simp add: conj_commute conj_left_commute)
  then show ?thesis
    by (simp add: clean1_def astype_str_def str_replace_char ustr_space ustr_comma)
qed

lemma set_str_strip: "set (str_strip s) \<subseteq> set s"
proof -
  have "set (dropWhile py_isspace (rev (dropWhile py_isspace s)))
        \<subseteq> set (rev (dropWhile py_isspace s))"
    by (meson set_dropWhileD subsetI)
  moreover have "set (dropWhile py_isspace s) \<subseteq> set s"
    by (meson set_dropWhileD subsetI)
  ultimately show ?thesis
    by (auto simp: str_strip_def)
qed










lemma to_numeric_Coerce:
  "to_numeric Coerce ss = Inr (map (\<lambda>s. case floatify s of Some v \<Rightarrow> v | None \<Rightarrow> NaN) ss)"
  by (induction ss) (auto simp: to_numeric1_def split: option.splits)

lemmas parse_defs = floatify_def parse_decimal_def parse_special_def take_sign_def is_digit_def
  is_space_ascii_def parse_exponent_def literal_num_def dec_value_def scale10_def
  digits_val_def ascii_lower_def




subsection \<open>Frames, the loader and the coordinate lookup\<close>

lemma getitem_length:
  "wf_df df \<Longrightarrow> df_getitem df name = Inr c \<Longrightarrow> length c = nrows df"
  by (auto simp: wf_df_def df_getitem_def list_all_iff split: option.splits dest!: map_of_SomeD)

lemma getitem_put_column_other:
  "name' \<noteq> name \<Longrightarrow> df_getitem (put_column df name vals) name' = df_getitem df name'"
proof -
  have "map_of (map (\<lambda>(n, c). if n = name then (n, vals) else (n, c)) xs) name' = map_of xs name'"
    if "name' \<noteq> name" for xs :: "(pystr \<times> cell list) list"
    using that by (induction xs) auto
  then show "name' \<noteq> name \<Longrightarrow> ?thesis"
    by (simp add: df_getitem_def put_column_def map_add_def split: option.splits)
qed

lemma getitem_put_column_same:
  "df_getitem (put_column df name vals) name = Inr vals"
proof -
  have 1: "map_of (map (\<lambda>(n, c). if n = name then (n, vals) else (n, c)) xs) name = Some vals"
    if "name \<in> fst ` set xs" for xs :: "(pystr \<times> cell list) list"
    using that by (induction xs) auto
  have 2: "map_of xs name = None"
    if "name \<notin> fst ` set xs" for xs :: "(pystr \<times> cell list) list"
    using that by (simp add: map_of_eq_None_iff)
  show ?thesis
    by (simp add: df_getitem_def put_column_def columns_def 1 2 map_add_def)
qed

lemma nrows_put_column: "nrows (put_column df name vals) = nrows df"
  by (simp add: put_column_def)

lemma columns_put_column:
  "columns (put_column df name vals)
   = (if name \<in> set (columns df) then columns df else columns df @ [name])"
proof -
  have "map fst (map (\<lambda>(n, c). if n = name then (n, vals) else (n, c)) xs) = map fst xs"
    for xs :: "(pystr \<times> cell list) list"
    by (induction xs) auto
  then show ?thesis
    by (simp add: put_column_def columns_def)
qed

lemma wf_put_column:
  assumes "wf_df df" and "length vals = nrows df"
  shows "wf_df (put_column df name vals)"
proof -
  have d: "distinct (columns (put_column df name vals))"
    using assms(1) by (simp add: columns_put_column) (simp add: wf_df_def columns_def)
  have l: "list_all (\<lambda>(n, c). length c = nrows df) (cols (put_column df name vals))"
    using assms by (auto simp: put_column_def wf_df_def list_all_iff split: if_splits)
  show ?thesis
    using d l by (simp add: wf_df_def columns_def nrows_put_column)
qed

lemma df_setitem_ok:
  "length vals = nrows df \<Longrightarrow> df_setitem df name vals = Inr (put_column df name vals)"
  by (simp add: df_setitem_def)

lemma load_data_eq:
  assumes "fs p = Some (Inr df)" and "wf_df df" and "df_getitem df profit_column = Inr raw"
  shows "load_data fmt fs p
         = Inr (put_column df (ustr ''Profit'')
                  (map (\<lambda>c. CNum (case floatify (clean1 fmt c) of Some v \<Rightarrow> v | None \<Rightarrow> NaN)) raw))"
proof -
  have "length raw = nrows df"
    using assms(2,3) by (rule getitem_length)
  then show ?thesis
    using assms(1,3)
    by (simp add: load_data_def read_csv_def to_numeric_Coerce df_setitem_ok comp_def)
qed

lemma brussels_entry: "map_of get_coordinates (ustr ''Brussels'') = Some (50.8466, 4.3528)"
  by (simp add: get_coordinates_def ustr_def)

lemma lookup_coords_CStr:
  "lookup_coords get_coordinates (CStr s)
   = Some (case map_of get_coordinates s of Some p \<Rightarrow> p | None \<Rightarrow> (50.8466, 4.3528))"
  by (simp add: lookup_coords_def dict_get_def brussels_entry split: option.splits)

lemma lookup_coords_CNum: "lookup_coords get_coordinates (CNum x) = Some (50.8466, 4.3528)"
  by (simp add: lookup_coords_def dict_get_def brussels_entry)

lemma lookup_coords_CBool: "lookup_coords get_coordinates (CBool b) = Some (50.8466, 4.3528)"
  by (simp add: lookup_coords_def dict_get_def brussels_entry)

lemma lookup_coords_total: "\<exists>p. lookup_coords get_coordinates loc = Some p"
proof (cases loc)
  case (CStr s)
  then show ?thesis using lookup_coords_CStr by blast
next
  case (CNum x)
  then show ?thesis using lookup_coords_CNum by blast
next
  case (CBool b)
  then show ?thesis using lookup_coords_CBool by blast
qed

lemma coords_loop_acc:
  "\<exists>lats lons. coords_loop get_coordinates locs la lo = Inr (la @ lats, lo @ lons)
     \<and> length lats = length locs \<and> length lons = length locs
     \<and> (\<forall>i<length locs. lookup_coords get_coordinates (locs ! i) = Some (lats ! i, lons ! i))"
proof (induction locs arbitrary: la lo)
  case Nil
  then show ?case by simp
next
  case (Cons loc rest)
  obtain lat lon where l: "lookup_coords get_coordinates loc = Some (lat, lon)"
    using lookup_coords_total [of loc] by auto
  from Cons.IH [of "la @ [lat]" "lo @ [lon]"] obtain lats lons where
    r: "coords_loop get_coordinates rest (la @ [lat]) (lo @ [lon])
        = Inr ((la @ [lat]) @ lats, (lo @ [lon]) @ lons)"
    and n: "length lats = length rest" "length lons = length rest"
    and v: "\<forall>i<length rest. lookup_coords get_coordinates (rest ! i) = Some (lats ! i, lons ! i)"
    by blast
  have "\<forall>i<length (loc # rest).
          lookup_coords get_coordinates ((loc # rest) ! i) = Some ((lat # lats) ! i, (lon # lons) ! i)"
    using l v by (auto simp: nth_Cons split: nat.splits)
  then show ?case
    using l r n by (intro exI [of _ "lat # lats"] exI [of _ "lon # lons"]) simp
qed

lemma coords_loop_ok:
  "\<exists>lats lons. coords_loop get_coordinates locs [] [] = Inr (lats, lons)
     \<and> length lats = length locs \<and> length lons = length locs
     \<and> (\<forall>i<length locs. lookup_coords get_coordinates (locs ! i) = Some (lats ! i, lons ! i))"
  using coords_loop_acc [of locs "[]" "[]"] by simp

subsection \<open>The enricher on a frame and in the store\<close>

lemma length_float_cells: "length (float_cells xs) = length xs"
  by (simp add: float_cells_def)

lemma enrich_obj_eq:
  assumes "r < length st" and "wf_df (st ! r)"
    and "df_getitem (st ! r) (ustr ''Locality'') = Inr locs"
  shows "\<exists>lats lons. length lats = nrows (st ! r) \<and> length lons = nrows (st ! r)
     \<and> (\<forall>i<nrows (st ! r). lookup_coords get_coordinates (locs ! i) = Some (lats ! i, lons ! i))
     \<and> enrich_with_coords_obj st r
         = (st @ [put_column (put_column (st ! r) (ustr ''Latitude'') (float_cells lats))
                    (ustr ''Longitude'') (float_cells lons)],
            Inr (length st))"
proof -
  have n: "length locs = nrows (st ! r)"
    using assms(2,3) by (rule getitem_length)
  obtain lats lons where
    c: "coords_loop get_coordinates locs [] [] = Inr (lats, lons)"
    and l: "length lats = length locs" "length lons = length locs"
    and v: "\<forall>i<length locs. lookup_coords get_coordinates (locs ! i) = Some (lats ! i, lons ! i)"
    using coords_loop_ok [of locs] by blast
  have "enrich_with_coords_obj st r
         = (st @ [put_column (put_column (st ! r) (ustr ''Latitude'') (float_cells lats))
                    (ustr ''Longitude'') (float_cells lons)],
            Inr (length st))"
    using assms(1,3) c l n
    by (simp add: enrich_with_coords_obj_def df_copy_def df_setitem_ok length_float_cells
        nrows_put_column)
  then show ?thesis
    using l v n by auto
qed

lemma enrich_eq:
  assumes "wf_df df" and "df_getitem df (ustr ''Locality'') = Inr locs"
  shows "\<exists>lats lons. length lats = nrows df \<and> length lons = nrows df
     \<and> (\<forall>i<nrows df. lookup_coords get_coordinates (locs ! i) = Some (lats ! i, lons ! i))
     \<and> enrich_with_coords df
         = Inr (put_column (put_column df (ustr ''Latitude'') (float_cells lats))
                  (ustr ''Longitude'') (float_cells lons))"
proof -
  from enrich_obj_eq [of 0 "[df]" locs] assms obtain lats lons where
    "length lats = nrows df" "length lons = nrows df"
    "\<forall>i<nrows df. lookup_coords get_coordinates (locs ! i) = Some (lats ! i, lons ! i)"
    "enrich_with_coords_obj [df] 0
       = ([df] @ [put_column (put_column df (ustr ''Latitude'') (float_cells lats))
                    (ustr ''Longitude'') (float_cells lons)], Inr (length [df]))"
    by auto
  then show ?thesis
    by (auto simp: enrich_with_coords_def)
qed

lemma enrich_obj_keeps_store:
  assumes "a < length st"
  shows "fst (enrich_with_coords_obj st r) ! a = st ! a"
  using assms
  by (auto simp: enrich_with_coords_obj_def df_copy_def nth_append Let_def
      split: sum.splits prod.splits)

lemma lat_ne_lon: "ustr ''Latitude'' \<noteq> ustr ''Longitude''"
  by (simp add: ustr_def)

lemma enrich_result:
  assumes "wf_df df" and "df_getitem df (ustr ''Locality'') = Inr locs"
  obtains df' lats lons where
    "enrich_with_coords df = Inr df'" and "wf_df df'" and "nrows df' = nrows df"
    and "length lats = nrows df" and "length lons = nrows df"
    and "df_getitem df' (ustr ''Latitude'') = Inr (float_cells lats)"
    and "df_getitem df' (ustr ''Longitude'') = Inr (float_cells lons)"
    and "\<And>i. i < nrows df \<Longrightarrow> lookup_coords get_coordinates (locs ! i) = Some (lats ! i, lons ! i)"
    and "\<And>name. name \<noteq> ustr ''Latitude'' \<Longrightarrow> name \<noteq> ustr ''Longitude''
           \<Longrightarrow> df_getitem df' name = df_getitem df name"
    and "columns df' = columns (put_column (put_column df (ustr ''Latitude'') [])
                                   (ustr ''Longitude'') [])"
proof -
  from enrich_eq [OF assms] obtain lats lons where
    n: "length lats = nrows df" "length lons = nrows df"
    and v: "\<forall>i<nrows df. lookup_coords get_coordinates (locs ! i) = Some (lats ! i, lons ! i)"
    and e: "enrich_with_coords df
         = Inr (put_column (put_column df (ustr ''Latitude'') (float_cells lats))
                  (ustr ''Longitude'') (float_cells lons))"
    by blast
  let ?d1 = "put_column df (ustr ''Latitude'') (float_cells lats)"
  let ?d2 = "put_column ?d1 (ustr ''Longitude'') (float_cells lons)"
  have w1: "wf_df ?d1"
    using assms(1) n by (simp add: wf_put_column length_float_cells)
  have w2: "wf_df ?d2"
    using w1 n by (simp add: wf_put_column length_float_cells nrows_put_column)
  have la: "df_getitem ?d2 (ustr ''Latitude'') = Inr (float_cells lats)"
    by (simp add: getitem_put_column_other lat_ne_lon getitem_put_column_same)
  have lo: "df_getitem ?d2 (ustr ''Longitude'') = Inr (float_cells lons)"
    by (simp add: getitem_put_column_same)
  have other: "df_getitem ?d2 name = df_getitem df name"
    if "name \<noteq> ustr ''Latitude''" "name \<noteq> ustr ''Longitude''" for name
    using that by (simp add: getitem_put_column_other)
  have cs: "columns ?d2 = columns (put_column (put_column df (ustr ''Latitude'') [])
                                   (ustr ''Longitude'') [])"
    by (simp add: columns_put_column)
  show ?thesis
    using that [of ?d2 lats lons] e w2 n la lo v other cs
    by (simp add: nrows_put_column)
qed

lemma float_cells_nth: "i < length xs \<Longrightarrow> float_cells xs ! i = CNum (Fin (xs ! i))"
  by (simp add: float_cells_def)

lemma wf_sample_df: "wf_df sample_df"
  by (simp add: wf_df_def sample_df_def profit_column_def ustr_def euro_def)

lemma sample_df_locality:
  "df_getitem sample_df (ustr ''Locality'')
   = Inr [CStr (ustr ''Waterloo''), CStr (ustr ''Unknown Town'')]"
  by (simp add: df_getitem_def sample_df_def ustr_def)

lemma wf_sample_df_odd: "wf_df sample_df_odd"
  by (simp add: wf_df_def sample_df_odd_def ustr_def)

lemma sample_df_odd_locality:
  "df_getitem sample_df_odd (ustr ''Locality'') = Inr [CNum NaN, CNum (Fin 1000), CBool True]"
  by (simp add: df_getitem_def sample_df_odd_def ustr_def)

text \<open>
  C3. On a frame with a Locality column the enricher returns a frame (it raises nothing)
  with a Latitude and a Longitude column as long as the frame, and in every row both
  cells hold a finite number: no coordinate is missing, whatever the Locality cell holds.
\<close>

theorem enrich_coords_never_missing:
  assumes "wf_df df" and "df_getitem df (ustr ''Locality'') = Inr locs"
  shows "\<exists>df' lats lons. enrich_with_coords df = Inr df' \<and> nrows df' = nrows df
     \<and> df_getitem df' (ustr ''Latitude'') = Inr lats
     \<and> df_getitem df' (ustr ''Longitude'') = Inr lons
     \<and> length lats = nrows df \<and> length lons = nrows df
     \<and> (\<forall>i<nrows df. \<not> is_missing (lats ! i) \<and> \<not> is_missing (lons ! i)
            \<and> (\<exists>x y. lats ! i = CNum (Fin x) \<and> lons ! i = CNum (Fin y)))"
proof -
  from enrich_result [OF assms] obtain df' lats lons where
    r: "enrich_with_coords df = Inr df'" "nrows df' = nrows df"
       "length lats = nrows df" "length lons = nrows df"
       "df_getitem df' (ustr ''Latitude'') = Inr (float_cells lats)"
       "df_getitem df' (ustr ''Longitude'') = Inr (float_cells lons)"
    by metis
  have "\<not> is_missing (float_cells lats ! i) \<and> \<not> is_missing (float_cells lons ! i)
        \<and> (\<exists>x y. float_cells lats ! i = CNum (Fin x) \<and> float_cells lons ! i = CNum (Fin y))"
    if "i < nrows df" for i
    using that r(3,4) by (simp add: float_cells_nth is_missing_def)
  then show ?thesis
    using r by (simp add: length_float_cells)
qed

theorem enrich_coords_never_missing_witness:
  "wf_df sample_df_odd
   \<and> df_getitem sample_df_odd (ustr ''Locality'') = Inr [CNum NaN, CNum (Fin 1000), CBool True]
   \<and> (\<exists>df' lats lons. enrich_with_coords sample_df_odd = Inr df'
        \<and> df_getitem df' (ustr ''Latitude'') = Inr lats
        \<and> df_getitem df' (ustr ''Longitude'') = Inr lons
        \<and> length lats = 3 \<and> length lons = 3
        \<and> \<not> is_missing (lats ! 0) \<and> \<not> is_missing (lons ! 0))"
proof -
  have n: "nrows sample_df_odd = 3"
    by (simp add: sample_df_odd_def)
  from enrich_coords_never_missing [OF wf_sample_df_odd sample_df_odd_locality]
  obtain df' lats lons where
    r: "enrich_with_coords sample_df_odd = Inr df'"
       "df_getitem df' (ustr ''Latitude'') = Inr lats"
       "df_getitem df' (ustr ''Longitude'') = Inr lons"
       "length lats = nrows sample_df_odd" "length lons = nrows sample_df_odd"
    and a: "\<forall>i<nrows sample_df_odd. \<not> is_missing (lats ! i) \<and> \<not> is_missing (lons ! i)
            \<and> (\<exists>x y. lats ! i = CNum (Fin x) \<and> lons ! i = CNum (Fin y))"
    by blast
  from a n have "\<not> is_missing (lats ! 0) \<and> \<not> is_missing (lons ! 0)"
    by simp
  then show ?thesis
    using r n wf_sample_df_odd sample_df_odd_locality by auto
qed

text \<open>
  C4. The coordinate table has seven entries with distinct keys, among them Waterloo at
  (50.7219, 4.3997) and Brussels at (50.8466, 4.3528). In every row of the enriched frame,
  a Locality that is a key of the table gets the pair stored under it, and a Locality
  that is no key gets the pair of the Brussels entry.
\<close>

theorem enrich_assigns_entry_or_brussels:
  assumes "wf_df df" and "df_getitem df (ustr ''Locality'') = Inr locs" and "i < nrows df"
  shows "\<exists>df' lats lons. enrich_with_coords df = Inr df'
     \<and> df_getitem df' (ustr ''Latitude'') = Inr lats
     \<and> df_getitem df' (ustr ''Longitude'') = Inr lons
     \<and> (\<forall>s la lo. locs ! i = CStr s \<longrightarrow> map_of get_coordinates s = Some (la, lo)
           \<longrightarrow> lats ! i = CNum (Fin la) \<and> lons ! i = CNum (Fin lo))
     \<and> ((\<forall>s. locs ! i = CStr s \<longrightarrow> s \<notin> set (map fst get_coordinates))
           \<longrightarrow> lats ! i = CNum (Fin 50.8466) \<and> lons ! i = CNum (Fin 4.3528))
     \<and> length get_coordinates = 7 \<and> distinct (map fst get_coordinates)
     \<and> map_of get_coordinates (ustr ''Waterloo'') = Some (50.7219, 4.3997)
     \<and> map_of get_coordinates (ustr ''Brussels'') = Some (50.8466, 4.3528)"
proof -
  from enrich_result [OF assms(1,2)] obtain df' lats lons where
    r: "enrich_with_coords df = Inr df'"
       "length lats = nrows df" "length lons = nrows df"
       "df_getitem df' (ustr ''Latitude'') = Inr (float_cells lats)"
       "df_getitem df' (ustr ''Longitude'') = Inr (float_cells lons)"
    and v: "\<And>i. i < nrows df \<Longrightarrow> lookup_coords get_coordinates (locs ! i) = Some (lats ! i, lons ! i)"
    by metis
  have l: "lookup_coords get_coordinates (locs ! i) = Some (lats ! i, lons ! i)"
    using v assms(3) by simp
  have c: "float_cells lats ! i = CNum (Fin (lats ! i))" "float_cells lons ! i = CNum (Fin (lons ! i))"
    using r(2,3) assms(3) by (simp_all add: float_cells_nth)
  have k: "lats ! i = la \<and> lons ! i = lo"
    if "locs ! i = CStr s" "map_of get_coordinates s = Some (la, lo)" for s la lo
    using that l by (simp add: lookup_coords_CStr)
  have d: "lats ! i = 50.8466 \<and> lons ! i = 4.3528"
    if "\<forall>s. locs ! i = CStr s \<longrightarrow> s \<notin> set (map fst get_coordinates)"
  proof (cases "locs ! i")
    case (CStr s)
    with that have "map_of get_coordinates s = None"
      by (simp add: map_of_eq_None_iff)
    with CStr l show ?thesis
      by (simp add: lookup_coords_CStr)
  next
    case (CNum x)
    with l show ?thesis by (simp add: lookup_coords_CNum)
  next
    case (CBool b)
    with l show ?thesis by (simp add: lookup_coords_CBool)
  qed
  have t: "length get_coordinates = 7" "distinct (map fst get_coordinates)"
    "map_of get_coordinates (ustr ''Waterloo'') = Some (50.7219, 4.3997)"
    by (simp_all add: get_coordinates_def ustr_def)
  show ?thesis
    using r(1,4,5) c k d t brussels_entry by auto
qed

theorem enrich_assigns_entry_or_brussels_witness:
  "wf_df sample_df
   \<and> df_getitem sample_df (ustr ''Locality'')
       = Inr [CStr (ustr ''Waterloo''), CStr (ustr ''Unknown Town'')]
   \<and> (\<exists>df' lats lons. enrich_with_coords sample_df = Inr df'
        \<and> df_getitem df' (ustr ''Latitude'') = Inr lats
        \<and> df_getitem df' (ustr ''Longitude'') = Inr lons
        \<and> lats ! 0 = CNum (Fin 50.7219) \<and> lons ! 0 = CNum (Fin 4.3997))
   \<and> (\<exists>df' lats lons. enrich_with_coords sample_df = Inr df'
        \<and> df_getitem df' (ustr ''Latitude'') = Inr lats
        \<and> df_getitem df' (ustr ''Longitude'') = Inr lons
        \<and> lats ! 1 = CNum (Fin 50.8466) \<and> lons ! 1 = CNum (Fin 4.3528))"
proof -
  have n: "0 < nrows sample_df" "1 < nrows sample_df"
    by (simp_all add: sample_df_def)
  have w: "map_of get_coordinates (ustr ''Waterloo'') = Some (50.7219, 4.3997)"
    by (simp add: get_coordinates_def ustr_def)
  have u: "ustr ''Unknown Town'' \<notin> set (map fst get_coordinates)"
    by (simp add: get_coordinates_def ustr_def)
  let ?locs = "[CStr (ustr ''Waterloo''), CStr (ustr ''Unknown Town'')]"
  have l0: "?locs ! 0 = CStr (ustr ''Waterloo'')"
    by simp
  have l1: "\<forall>s. ?locs ! 1 = CStr s \<longrightarrow> s \<notin> set (map fst get_coordinates)"
    using u by simp
  from enrich_assigns_entry_or_brussels [OF wf_sample_df sample_df_locality n(1)]
  obtain df' lats lons where
    e: "enrich_with_coords sample_df = Inr df'"
       "df_getitem df' (ustr ''Latitude'') = Inr lats"
       "df_getitem df' (ustr ''Longitude'') = Inr lons"
    and k: "\<forall>s la lo. ?locs ! 0 = CStr s \<longrightarrow> map_of get_coordinates s = Some (la, lo)
           \<longrightarrow> lats ! 0 = CNum (Fin la) \<and> lons ! 0 = CNum (Fin lo)"
    by blast
  from k l0 w have "lats ! 0 = CNum (Fin 50.7219) \<and> lons ! 0 = CNum (Fin 4.3997)"
    by blast
  with e have a: "\<exists>df' lats lons. enrich_with_coords sample_df = Inr df'
        \<and> df_getitem df' (ustr ''Latitude'') = Inr lats
        \<and> df_getitem df' (ustr ''Longitude'') = Inr lons
        \<and> lats ! 0 = CNum (Fin 50.7219) \<and> lons ! 0 = CNum (Fin 4.3997)"
    by blast
  from enrich_assigns_entry_or_brussels [OF wf_sample_df sample_df_locality n(2)]
  obtain df2 lats2 lons2 where
    e2: "enrich_with_coords sample_df = Inr df2"
       "df_getitem df2 (ustr ''Latitude'') = Inr lats2"
       "df_getitem df2 (ustr ''Longitude'') = Inr lons2"
    and d: "(\<forall>s. ?locs ! 1 = CStr s \<longrightarrow> s \<notin> set (map fst get_coordinates))
           \<longrightarrow> lats2 ! 1 = CNum (Fin 50.8466) \<and> lons2 ! 1 = CNum (Fin 4.3528)"
    by blast
  from d l1 have "lats2 ! 1 = CNum (Fin 50.8466) \<and> lons2 ! 1 = CNum (Fin 4.3528)"
    by blast
  with e2 have b: "\<exists>df' lats lons. enrich_with_coords sample_df = Inr df'
        \<and> df_getitem df' (ustr ''Latitude'') = Inr lats
        \<and> df_getitem df' (ustr ''Longitude'') = Inr lons
        \<and> lats ! 1 = CNum (Fin 50.8466) \<and> lons ! 1 = CNum (Fin 4.3528)"
    by blast
  show ?thesis
    using wf_sample_df sample_df_locality a b by blast
qed

text \<open>
  C9. A Locality cell that holds no text (an empty cell, which is NaN, a number or a
  boolean) raises nothing: the lookup falls through to the default and the row gets the
  Brussels pair (50.8466, 4.3528), as a row with an unknown town does.
\<close>

theorem enrich_nonstring_locality:
  assumes "wf_df df" and "df_getitem df (ustr ''Locality'') = Inr locs" and "i < nrows df"
    and "locs ! i = CNum x \<or> locs ! i = CBool b"
  shows "\<exists>df' lats lons. enrich_with_coords df = Inr df'
     \<and> df_getitem df' (ustr ''Latitude'') = Inr lats
     \<and> df_getitem df' (ustr ''Longitude'') = Inr lons
     \<and> lats ! i = CNum (Fin 50.8466) \<and> lons ! i = CNum (Fin 4.3528)
     \<and> lookup_coords get_coordinates (locs ! i)
         = lookup_coords get_coordinates (CStr (ustr ''Unknown Town''))"
proof -
  from enrich_result [OF assms(1,2)] obtain df' lats lons where
    r: "enrich_with_coords df = Inr df'"
       "length lats = nrows df" "length lons = nrows df"
       "df_getitem df' (ustr ''Latitude'') = Inr (float_cells lats)"
       "df_getitem df' (ustr ''Longitude'') = Inr (float_cells lons)"
    and v: "\<And>i. i < nrows df \<Longrightarrow> lookup_coords get_coordinates (locs ! i) = Some (lats ! i, lons ! i)"
    by metis
  have b: "lookup_coords get_coordinates (locs ! i) = Some (50.8466, 4.3528)"
    using assms(4) by (auto simp: lookup_coords_CNum lookup_coords_CBool)
  have u: "lookup_coords get_coordinates (CStr (ustr ''Unknown Town'')) = Some (50.8466, 4.3528)"
    by (simp add: lookup_coords_CStr) (simp add: get_coordinates_def ustr_def)
  have l: "lats ! i = 50.8466 \<and> lons ! i = 4.3528"
    using v [OF assms(3)] b by simp
  have c: "float_cells lats ! i = CNum (Fin 50.8466)" "float_cells lons ! i = CNum (Fin 4.3528)"
    using r(2,3) assms(3) l by (simp_all add: float_cells_nth)
  show ?thesis
    using r(1,4,5) c b u by auto
qed

theorem enrich_nonstring_locality_witness:
  "wf_df sample_df_odd
   \<and> df_getitem sample_df_odd (ustr ''Locality'') = Inr [CNum NaN, CNum (Fin 1000), CBool True]
   \<and> [CNum NaN, CNum (Fin 1000), CBool True] ! 0 = CNum NaN
   \<and> (\<exists>df' lats lons. enrich_with_coords sample_df_odd = Inr df'
        \<and> df_getitem df' (ustr ''Latitude'') = Inr lats
        \<and> df_getitem df' (ustr ''Longitude'') = Inr lons
        \<and> lats ! 0 = CNum (Fin 50.8466) \<and> lons ! 0 = CNum (Fin 4.3528))"
proof -
  have n: "0 < nrows sample_df_odd"
    by (simp add: sample_df_odd_def)
  have h: "[CNum NaN, CNum (Fin 1000), CBool True] ! 0 = CNum NaN
           \<or> [CNum NaN, CNum (Fin 1000), CBool True] ! 0 = CBool True"
    by simp
  from enrich_nonstring_locality [OF wf_sample_df_odd sample_df_odd_locality n h]
  have "\<exists>df' lats lons. enrich_with_coords sample_df_odd = Inr df'
        \<and> df_getitem df' (ustr ''Latitude'') = Inr lats
        \<and> df_getitem df' (ustr ''Longitude'') = Inr lons
        \<and> lats ! 0 = CNum (Fin 50.8466) \<and> lons ! 0 = CNum (Fin 4.3528)"
    by blast
  then show ?thesis
    using wf_sample_df_odd sample_df_odd_locality by simp
qed

lemma row_get_cong:
  "df_getitem a name = df_getitem b name \<Longrightarrow> row_get a i name = row_get b i name"
  by (auto simp: df_getitem_def row_get_def split: option.splits)

lemma filter_columns_put_column:
  "name \<in> set ns \<Longrightarrow>
   filter (\<lambda>n. n \<notin> set ns) (columns (put_column df name vals))
   = filter (\<lambda>n. n \<notin> set ns) (columns df)"
  by (simp add: columns_put_column)

lemma put_column_in_columns: "name \<in> set (columns (put_column df name vals))"
  by (simp add: columns_put_column)

lemma put_column_keeps_columns:
  "n \<in> set (columns df) \<Longrightarrow> n \<in> set (columns (put_column df name vals))"
  by (simp add: columns_put_column)

lemma kept_ne_coord:
  "ustr ''Name'' \<noteq> ustr ''Latitude''" "ustr ''Name'' \<noteq> ustr ''Longitude''"
  "ustr ''Address'' \<noteq> ustr ''Latitude''" "ustr ''Address'' \<noteq> ustr ''Longitude''"
  "ustr ''Locality'' \<noteq> ustr ''Latitude''" "ustr ''Locality'' \<noteq> ustr ''Longitude''"
  "profit_column \<noteq> ustr ''Latitude''" "profit_column \<noteq> ustr ''Longitude''"
  "ustr ''Profit'' \<noteq> ustr ''Latitude''" "ustr ''Profit'' \<noteq> ustr ''Longitude''"
  by (simp_all add: ustr_def profit_column_def)

lemma coord_columns_mem:
  "ustr ''Latitude'' \<in> set coord_columns" "ustr ''Longitude'' \<in> set coord_columns"
  by (simp_all add: coord_columns_def)

text \<open>
  C10. Enrichment keeps the shape of the table: the result has as many rows as the input,
  and the columns Name, Address, Locality, the raw profit text and Profit are the same
  lists of cells as before, so that at every row position each of them holds the value it
  held in the input.
\<close>

theorem enrich_preserves_rows:
  assumes "wf_df df" and "df_getitem df (ustr ''Locality'') = Inr locs"
  shows "\<exists>df'. enrich_with_coords df = Inr df' \<and> wf_df df' \<and> nrows df' = nrows df
     \<and> (\<forall>name \<in> set [ustr ''Name'', ustr ''Address'', ustr ''Locality'', profit_column,
                         ustr ''Profit''].
           df_getitem df' name = df_getitem df name
           \<and> (\<forall>i<nrows df. row_get df' i name = row_get df i name))"
proof -
  from enrich_result [OF assms] obtain df' where
    r: "enrich_with_coords df = Inr df'" "wf_df df'" "nrows df' = nrows df"
    and o: "\<And>name. name \<noteq> ustr ''Latitude'' \<Longrightarrow> name \<noteq> ustr ''Longitude''
           \<Longrightarrow> df_getitem df' name = df_getitem df name"
    by metis
  have "df_getitem df' name = df_getitem df name
        \<and> (\<forall>i<nrows df. row_get df' i name = row_get df i name)"
    if "name \<in> set [ustr ''Name'', ustr ''Address'', ustr ''Locality'', profit_column,
                      ustr ''Profit'']" for name
  proof -
    from that have "name = ustr ''Name'' \<or> name = ustr ''Address'' \<or> name = ustr ''Locality''
        \<or> name = profit_column \<or> name = ustr ''Profit''"
      by (simp only: set_simps insert_iff empty_iff simp_thms)
    then have "name \<noteq> ustr ''Latitude'' \<and> name \<noteq> ustr ''Longitude''"
      by (elim disjE) (simp_all only: kept_ne_coord simp_thms)
    then have "name \<noteq> ustr ''Latitude''" and "name \<noteq> ustr ''Longitude''"
      by blast+
    then have "df_getitem df' name = df_getitem df name"
      by (rule o)
    then show ?thesis
      using row_get_cong [of df' name df] by blast
  qed
  then show ?thesis
    using r by blast
qed

theorem enrich_preserves_rows_witness:
  "wf_df sample_df
   \<and> df_getitem sample_df (ustr ''Locality'')
       = Inr [CStr (ustr ''Waterloo''), CStr (ustr ''Unknown Town'')]
   \<and> (\<exists>df'. enrich_with_coords sample_df = Inr df' \<and> nrows df' = 2
        \<and> df_getitem df' (ustr ''Name'')
            = Inr [CStr (ustr ''Agency A''), CStr (ustr ''Agency B'')]
        \<and> row_get df' 1 profit_column = Inr (CStr (ustr ''not disclosed'')))"
proof -
  have n: "nrows sample_df = 2"
    by (simp add: sample_df_def)
  have g: "df_getitem sample_df (ustr ''Name'')
            = Inr [CStr (ustr ''Agency A''), CStr (ustr ''Agency B'')]"
    by (simp add: df_getitem_def sample_df_def ustr_def)
  have p: "row_get sample_df 1 profit_column = Inr (CStr (ustr ''not disclosed''))"
    by (simp add: row_get_def sample_df_def ustr_def profit_column_def)
  from enrich_preserves_rows [OF wf_sample_df sample_df_locality]
  obtain df' where
    e: "enrich_with_coords sample_df = Inr df'" "nrows df' = nrows sample_df"
    and a: "\<forall>name \<in> set [ustr ''Name'', ustr ''Address'', ustr ''Locality'', profit_column,
                         ustr ''Profit''].
           df_getitem df' name = df_getitem sample_df name
           \<and> (\<forall>i<nrows sample_df. row_get df' i name = row_get sample_df i name)"
    by blast
  from a have "df_getitem df' (ustr ''Name'') = df_getitem sample_df (ustr ''Name'')"
    by simp
  moreover from a n have "row_get df' 1 profit_column = row_get sample_df 1 profit_column"
    by simp
  ultimately show ?thesis
    using e n g p wf_sample_df sample_df_locality by auto
qed

text \<open>
  C6. The enricher has no effect on the objects that exist when it is called: whatever
  it returns or raises, every frame of the store, the input among them, is afterwards what
  it was before. On a frame with a Locality column the result is a new object, a copy
  of the input in which only the columns Latitude and Longitude are set: the number of
  rows, every other column and the order of the other columns are those of the input.
\<close>

theorem enrich_leaves_input_unchanged:
  assumes "r < length st"
  shows "(\<forall>a<length st. fst (enrich_with_coords_obj st r) ! a = st ! a)
     \<and> (wf_df (st ! r) \<longrightarrow> (\<forall>locs. df_getitem (st ! r) (ustr ''Locality'') = Inr locs \<longrightarrow>
          (\<exists>st' r'. enrich_with_coords_obj st r = (st', Inr r')
             \<and> r' = length st \<and> r' \<noteq> r \<and> length st' = Suc (length st)
             \<and> st' ! r = st ! r
             \<and> nrows (st' ! r') = nrows (st ! r)
             \<and> (\<forall>name. name \<notin> set coord_columns \<longrightarrow>
                    df_getitem (st' ! r') name = df_getitem (st ! r) name)
             \<and> filter (\<lambda>n. n \<notin> set coord_columns) (columns (st' ! r'))
                 = filter (\<lambda>n. n \<notin> set coord_columns) (columns (st ! r))
             \<and> set coord_columns \<subseteq> set (columns (st' ! r')))))"
proof -
  have keep: "\<forall>a<length st. fst (enrich_with_coords_obj st r) ! a = st ! a"
    by (simp add: enrich_obj_keeps_store)
  have new: "\<exists>st' r'. enrich_with_coords_obj st r = (st', Inr r')
             \<and> r' = length st \<and> r' \<noteq> r \<and> length st' = Suc (length st)
             \<and> st' ! r = st ! r
             \<and> nrows (st' ! r') = nrows (st ! r)
             \<and> (\<forall>name. name \<notin> set coord_columns \<longrightarrow>
                    df_getitem (st' ! r') name = df_getitem (st ! r) name)
             \<and> filter (\<lambda>n. n \<notin> set coord_columns) (columns (st' ! r'))
                 = filter (\<lambda>n. n \<notin> set coord_columns) (columns (st ! r))
             \<and> set coord_columns \<subseteq> set (columns (st' ! r'))"
    if w: "wf_df (st ! r)" and g: "df_getitem (st ! r) (ustr ''Locality'') = Inr locs" for locs
  proof -
    from enrich_obj_eq [OF assms w g] obtain lats lons where
      e: "enrich_with_coords_obj st r
         = (st @ [put_column (put_column (st ! r) (ustr ''Latitude'') (float_cells lats))
                    (ustr ''Longitude'') (float_cells lons)],
            Inr (length st))"
      by blast
    let ?d = "put_column (put_column (st ! r) (ustr ''Latitude'') (float_cells lats))
                    (ustr ''Longitude'') (float_cells lons)"
    have 1: "(st @ [?d]) ! length st = ?d"
      by simp
    have 2: "(st @ [?d]) ! r = st ! r"
      using assms by (simp add: nth_append)
    have 3: "nrows ?d = nrows (st ! r)"
      by (simp add: nrows_put_column)
    have 4: "\<forall>name. name \<notin> set coord_columns \<longrightarrow> df_getitem ?d name = df_getitem (st ! r) name"
      by (simp add: coord_columns_def getitem_put_column_other)
    have 5: "filter (\<lambda>n. n \<notin> set coord_columns) (columns ?d)
             = filter (\<lambda>n. n \<notin> set coord_columns) (columns (st ! r))"
      by (simp only: filter_columns_put_column [OF coord_columns_mem(1)]
          filter_columns_put_column [OF coord_columns_mem(2)])
    have 6: "set coord_columns \<subseteq> set (columns ?d)"
      by (simp add: coord_columns_def put_column_in_columns put_column_keeps_columns)
    show ?thesis
      using assms e 1 2 3 4 5 6 by simp
  qed
  show ?thesis
    using keep new by blast
qed

theorem enrich_leaves_input_unchanged_witness:
  "(0::nat) < length [sample_df] \<and> wf_df ([sample_df] ! 0)
   \<and> (\<exists>st' r'. enrich_with_coords_obj [sample_df] 0 = (st', Inr r')
        \<and> r' = 1 \<and> st' ! 0 = sample_df \<and> nrows (st' ! r') = 2
        \<and> df_getitem (st' ! r') (ustr ''Name'')
            = Inr [CStr (ustr ''Agency A''), CStr (ustr ''Agency B'')])"
proof -
  let ?locs = "[CStr (ustr ''Waterloo''), CStr (ustr ''Unknown Town'')]"
  have l: "0 < length [sample_df]"
    by simp
  have w: "wf_df ([sample_df] ! 0)"
    using wf_sample_df by simp
  have g: "df_getitem ([sample_df] ! 0) (ustr ''Locality'') = Inr ?locs"
    using sample_df_locality by simp
  have n: "nrows sample_df = 2"
    by (simp add: sample_df_def)
  have c: "ustr ''Name'' \<notin> set coord_columns"
    by (simp add: coord_columns_def ustr_def)
  have a: "df_getitem sample_df (ustr ''Name'')
            = Inr [CStr (ustr ''Agency A''), CStr (ustr ''Agency B'')]"
    by (simp add: df_getitem_def sample_df_def ustr_def)
  from enrich_leaves_input_unchanged [OF l]
  have "wf_df ([sample_df] ! 0) \<longrightarrow>
        (\<forall>locs. df_getitem ([sample_df] ! 0) (ustr ''Locality'') = Inr locs \<longrightarrow>
          (\<exists>st' r'. enrich_with_coords_obj [sample_df] 0 = (st', Inr r')
             \<and> r' = length [sample_df] \<and> r' \<noteq> 0 \<and> length st' = Suc (length [sample_df])
             \<and> st' ! 0 = [sample_df] ! 0
             \<and> nrows (st' ! r') = nrows ([sample_df] ! 0)
             \<and> (\<forall>name. name \<notin> set coord_columns \<longrightarrow>
                    df_getitem (st' ! r') name = df_getitem ([sample_df] ! 0) name)
             \<and> filter (\<lambda>n. n \<notin> set coord_columns) (columns (st' ! r'))
                 = filter (\<lambda>n. n \<notin> set coord_columns) (columns ([sample_df] ! 0))
             \<and> set coord_columns \<subseteq> set (columns (st' ! r'))))"
    by (rule conjunct2)
  with w g obtain st' r' where
    e: "enrich_with_coords_obj [sample_df] 0 = (st', Inr r')" "r' = length [sample_df]"
       "st' ! 0 = [sample_df] ! 0" "nrows (st' ! r') = nrows ([sample_df] ! 0)"
    and o: "\<forall>name. name \<notin> set coord_columns \<longrightarrow>
                    df_getitem (st' ! r') name = df_getitem ([sample_df] ! 0) name"
    by blast
  from o c have "df_getitem (st' ! r') (ustr ''Name'') = df_getitem ([sample_df] ! 0) (ustr ''Name'')"
    by blast
  then show ?thesis
    using e n a l w by auto
qed

subsection \<open>The loader on a file\<close>

lemma load_data_result:
  assumes "wf_df df" and "fs p = Some (Inr df)" and "df_getitem df profit_column = Inr raw"
  shows "\<exists>df' prof. load_data fmt fs p = Inr df' \<and> wf_df df' \<and> nrows df' = nrows df
     \<and> df_getitem df' (ustr ''Profit'') = Inr prof \<and> length prof = nrows df
     \<and> (\<forall>i<nrows df.
           prof ! i = CNum (case floatify (clean1 fmt (raw ! i)) of Some v \<Rightarrow> v | None \<Rightarrow> NaN))
     \<and> (\<forall>name. name \<noteq> ustr ''Profit'' \<longrightarrow> df_getitem df' name = df_getitem df name)"
proof -
  let ?prof = "map (\<lambda>c. CNum (case floatify (clean1 fmt c) of Some v \<Rightarrow> v | None \<Rightarrow> NaN)) raw"
  let ?d = "put_column df (ustr ''Profit'') ?prof"
  have n: "length raw = nrows df"
    using assms(1,3) by (rule getitem_length)
  have e: "load_data fmt fs p = Inr ?d"
    using assms(2,1,3) by (rule load_data_eq)
  have w: "wf_df ?d"
    using assms(1) n by (simp add: wf_put_column)
  have g: "df_getitem ?d (ustr ''Profit'') = Inr ?prof"
    by (rule getitem_put_column_same)
  have o: "\<forall>name. name \<noteq> ustr ''Profit'' \<longrightarrow> df_getitem ?d name = df_getitem df name"
    by (simp add: getitem_put_column_other)
  have l: "length ?prof = nrows df"
    using n by simp
  have v: "\<forall>i<nrows df.
           ?prof ! i = CNum (case floatify (clean1 fmt (raw ! i)) of Some v \<Rightarrow> v | None \<Rightarrow> NaN)"
    using n by simp
  have r: "nrows ?d = nrows df"
    by (rule nrows_put_column)
  show ?thesis
    using e w r g l v o by blast
qed

lemma clean1_example_1234: "clean1 fmt (CStr (euro # ustr ''1,234 '')) = ustr ''1234''"
  by (simp add: clean1_CStr str_strip_def ustr_def euro_def py_isspace_def)

lemma clean1_example_45: "clean1 fmt (CStr (euro # ustr '' 45.000'')) = ustr ''45.000''"
  by (simp add: clean1_CStr str_strip_def ustr_def euro_def py_isspace_def)

lemma floatify_1234: "floatify (ustr ''1234'') = Some (Fin 1234)"
  by (simp add: ustr_def parse_defs)

lemma floatify_45: "floatify (ustr ''45.000'') = Some (Fin 45)"
  by (simp add: ustr_def parse_defs)

lemma floatify_NA: "floatify (ustr ''N/A'') = None"
  by (simp add: ustr_def parse_defs)

lemma clean1_NA: "clean1 fmt (CStr (ustr ''N/A'')) = ustr ''N/A''"
  by (simp add: clean1_CStr str_strip_def ustr_def euro_def py_isspace_def)

lemma clean1_not_disclosed:
  "clean1 fmt (CStr (ustr ''not disclosed'')) = ustr ''notdisclosed''"
  by (simp add: clean1_CStr str_strip_def ustr_def euro_def py_isspace_def)

lemma floatify_not_disclosed: "floatify (ustr ''notdisclosed'') = None"
  by (simp add: ustr_def parse_defs)

text \<open>
  C1. The text of a profit cell is cleaned before it is parsed: the string given to
  \<^verbatim>\<open>to_numeric\<close> is the text without its euro signs, commas and spaces, stripped, none
  of the three characters is left in it, and the Profit cell of the row is the number
  parsed from it. The text \<^verbatim>\<open>"\<euro>1,234 "\<close> is cleaned to \<^verbatim>\<open>"1234"\<close> and parsed as
  1234; the text \<^verbatim>\<open>"\<euro> 45.000"\<close> is cleaned to \<^verbatim>\<open>"45.000"\<close>, the decimal point
  kept, and parsed as 45.
\<close>

theorem profit_text_cleaned_before_parsing:
  assumes "wf_df df" and "fs p = Some (Inr df)" and "df_getitem df profit_column = Inr raw"
    and "i < nrows df" and "raw ! i = CStr s"
  shows "\<exists>df' prof cleaned v. load_data fmt fs p = Inr df'
     \<and> df_getitem df' (ustr ''Profit'') = Inr prof
     \<and> cleaned = str_strip (filter (\<lambda>c. c \<noteq> euro \<and> c \<noteq> 44 \<and> c \<noteq> 32) s)
     \<and> euro \<notin> set cleaned \<and> 44 \<notin> set cleaned \<and> 32 \<notin> set cleaned
     \<and> to_numeric Coerce [cleaned] = Inr [v] \<and> prof ! i = CNum v
     \<and> clean1 fmt (CStr (euro # ustr ''1,234 '')) = ustr ''1234''
     \<and> to_numeric Coerce [ustr ''1234''] = Inr [Fin 1234]
     \<and> clean1 fmt (CStr (euro # ustr '' 45.000'')) = ustr ''45.000''
     \<and> to_numeric Coerce [ustr ''45.000''] = Inr [Fin 45]"
proof -
  let ?cleaned = "str_strip (filter (\<lambda>c. c \<noteq> euro \<and> c \<noteq> 44 \<and> c \<noteq> 32) s)"
  let ?v = "case floatify ?cleaned of Some v \<Rightarrow> v | None \<Rightarrow> NaN"
  from load_data_result [where df = df and fs = fs and p = p and raw = raw and fmt = fmt]
    assms(1,2,3)
  obtain df' prof where
    r: "load_data fmt fs p = Inr df'" "df_getitem df' (ustr ''Profit'') = Inr prof"
    and v: "\<forall>i<nrows df.
           prof ! i = CNum (case floatify (clean1 fmt (raw ! i)) of Some v \<Rightarrow> v | None \<Rightarrow> NaN)"
    by blast
  have c: "clean1 fmt (raw ! i) = ?cleaned"
    using assms(5) by (simp add: clean1_CStr)
  have pv: "prof ! i = CNum ?v"
    using v assms(4) c by simp
  have sub: "set ?cleaned \<subseteq> {c \<in> set s. c \<noteq> euro \<and> c \<noteq> 44 \<and> c \<noteq> 32}"
    using set_str_strip [of "filter (\<lambda>c. c \<noteq> euro \<and> c \<noteq> 44 \<and> c \<noteq> 32) s"] by simp
  have gone: "euro \<notin> set ?cleaned" "44 \<notin> set ?cleaned" "32 \<notin> set ?cleaned"
    using sub by blast+
  have tn: "to_numeric Coerce [?cleaned] = Inr [?v]"
    by (simp only: to_numeric_Coerce list.map)
  have ex: "to_numeric Coerce [ustr ''1234''] = Inr [Fin 1234]"
    "to_numeric Coerce [ustr ''45.000''] = Inr [Fin 45]"
    by (simp_all only: to_numeric_Coerce list.map floatify_1234 floatify_45 option.case)
  show ?thesis
    using r gone tn pv ex clean1_example_1234 [of fmt] clean1_example_45 [of fmt]
    by blast
qed

lemma sample_fs_file: "sample_fs (sample_dir @ [csv_name]) = Some (Inr sample_df)"
  by (simp add: sample_fs_def)

lemma sample_df_profit_text:
  "df_getitem sample_df profit_column = Inr [CStr (euro # ustr ''1,234 ''), CStr (ustr ''not disclosed'')]"
  by (simp add: df_getitem_def sample_df_def ustr_def profit_column_def euro_def)

theorem profit_text_cleaned_before_parsing_witness:
  "wf_df sample_df \<and> sample_fs (sample_dir @ [csv_name]) = Some (Inr sample_df)
   \<and> df_getitem sample_df profit_column
       = Inr [CStr (euro # ustr ''1,234 ''), CStr (ustr ''not disclosed'')]
   \<and> (\<exists>df' prof. load_data sample_fmt sample_fs (sample_dir @ [csv_name]) = Inr df'
        \<and> df_getitem df' (ustr ''Profit'') = Inr prof \<and> prof ! 0 = CNum (Fin 1234))"
proof -
  let ?raw = "[CStr (euro # ustr ''1,234 ''), CStr (ustr ''not disclosed'')]"
  let ?s = "euro # ustr ''1,234 ''"
  have n: "0 < nrows sample_df"
    by (simp add: sample_df_def)
  have c: "?raw ! 0 = CStr ?s"
    by simp
  from profit_text_cleaned_before_parsing
    [where df = sample_df and fs = sample_fs and p = "sample_dir @ [csv_name]" and raw = ?raw
       and i = 0 and s = ?s and fmt = sample_fmt]
    wf_sample_df sample_fs_file sample_df_profit_text n c
  obtain df' prof cleaned v where
    r: "load_data sample_fmt sample_fs (sample_dir @ [csv_name]) = Inr df'"
       "df_getitem df' (ustr ''Profit'') = Inr prof"
    and cl: "cleaned = str_strip (filter (\<lambda>c. c \<noteq> euro \<and> c \<noteq> 44 \<and> c \<noteq> 32) ?s)"
    and tn: "to_numeric Coerce [cleaned] = Inr [v]" and pv: "prof ! 0 = CNum v"
    by blast
  have "cleaned = ustr ''1234''"
    using cl clean1_example_1234 [of sample_fmt] by (simp only: clean1_CStr)
  then have "to_numeric Coerce [cleaned] = Inr [Fin 1234]"
    by (simp only: to_numeric_Coerce list.map floatify_1234 option.case)
  with tn have "v = Fin 1234"
    by simp
  with pv have "prof ! 0 = CNum (Fin 1234)"
    by simp
  with r show ?thesis
    using wf_sample_df sample_fs_file sample_df_profit_text by blast
qed

text \<open>
  C2. When the cleaned profit text of a row is not a number (as for \<^verbatim>\<open>"N/A"\<close>), the
  loader still returns a frame: the parse error, which \<^verbatim>\<open>to_numeric\<close> would raise
  as a \<^verbatim>\<open>ValueError\<close> by default, is coerced. The Profit cell of that row is the missing
  value, and every column other than Profit, hence every other field of the row, is
  what was read from the file.
\<close>

theorem load_data_unparseable_profit_missing:
  assumes "wf_df df" and "fs p = Some (Inr df)" and "df_getitem df profit_column = Inr raw"
    and "i < nrows df" and "floatify (clean1 fmt (raw ! i)) = None"
  shows "\<exists>df' prof. load_data fmt fs p = Inr df' \<and> wf_df df' \<and> nrows df' = nrows df
     \<and> df_getitem df' (ustr ''Profit'') = Inr prof \<and> is_missing (prof ! i)
     \<and> to_numeric Raise [clean1 fmt (raw ! i)] = Inl ValueError
     \<and> (\<forall>name. name \<noteq> ustr ''Profit'' \<longrightarrow>
            df_getitem df' name = df_getitem df name
            \<and> row_get df' i name = row_get df i name)
     \<and> floatify (clean1 fmt (CStr (ustr ''N/A''))) = None"
proof -
  from load_data_result [where df = df and fs = fs and p = p and raw = raw and fmt = fmt]
    assms(1,2,3)
  obtain df' prof where
    r: "load_data fmt fs p = Inr df'" "wf_df df'" "nrows df' = nrows df"
       "df_getitem df' (ustr ''Profit'') = Inr prof"
    and v: "\<forall>i<nrows df.
           prof ! i = CNum (case floatify (clean1 fmt (raw ! i)) of Some v \<Rightarrow> v | None \<Rightarrow> NaN)"
    and o: "\<forall>name. name \<noteq> ustr ''Profit'' \<longrightarrow> df_getitem df' name = df_getitem df name"
    by blast
  have m: "is_missing (prof ! i)"
    using v assms(4,5) by (simp add: is_missing_def)
  have e: "to_numeric Raise [clean1 fmt (raw ! i)] = Inl ValueError"
    using assms(5) by (simp add: to_numeric1_def)
  have k: "df_getitem df' name = df_getitem df name \<and> row_get df' i name = row_get df i name"
    if "name \<noteq> ustr ''Profit''" for name
    using o that row_get_cong [of df' name df i] by blast
  have na: "floatify (clean1 fmt (CStr (ustr ''N/A''))) = None"
    by (simp only: clean1_NA floatify_NA)
  show ?thesis
    using r m e k na by blast
qed

theorem load_data_unparseable_profit_missing_witness:
  "wf_df sample_df \<and> sample_fs (sample_dir @ [csv_name]) = Some (Inr sample_df)
   \<and> floatify (clean1 sample_fmt ([CStr (euro # ustr ''1,234 ''), CStr (ustr ''not disclosed'')] ! 1)) = None
   \<and> (\<exists>df' prof. load_data sample_fmt sample_fs (sample_dir @ [csv_name]) = Inr df'
        \<and> df_getitem df' (ustr ''Profit'') = Inr prof \<and> is_missing (prof ! 1)
        \<and> df_getitem df' (ustr ''Name'')
            = Inr [CStr (ustr ''Agency A''), CStr (ustr ''Agency B'')])"
proof -
  let ?raw = "[CStr (euro # ustr ''1,234 ''), CStr (ustr ''not disclosed'')]"
  have n: "1 < nrows sample_df"
    by (simp add: sample_df_def)
  have f: "floatify (clean1 sample_fmt (?raw ! 1)) = None"
    by (simp add: clean1_not_disclosed floatify_not_disclosed)
  have d: "ustr ''Name'' \<noteq> ustr ''Profit''"
    by (simp add: ustr_def)
  have a: "df_getitem sample_df (ustr ''Name'')
            = Inr [CStr (ustr ''Agency A''), CStr (ustr ''Agency B'')]"
    by (simp add: df_getitem_def sample_df_def ustr_def)
  from load_data_unparseable_profit_missing
    [where df = sample_df and fs = sample_fs and p = "sample_dir @ [csv_name]" and raw = ?raw
       and i = 1 and fmt = sample_fmt]
    wf_sample_df sample_fs_file sample_df_profit_text n f
  obtain df' prof where
    r: "load_data sample_fmt sample_fs (sample_dir @ [csv_name]) = Inr df'"
       "df_getitem df' (ustr ''Profit'') = Inr prof" "is_missing (prof ! 1)"
    and o: "\<forall>name. name \<noteq> ustr ''Profit'' \<longrightarrow>
            df_getitem df' name = df_getitem sample_df name
            \<and> row_get df' 1 name = row_get sample_df 1 name"
    by blast
  from o d have "df_getitem df' (ustr ''Name'') = df_getitem sample_df (ustr ''Name'')"
    by blast
  with a r show ?thesis
    using wf_sample_df sample_fs_file f by auto
qed

subsection \<open>The orchestrator\<close>

lemma df_setitem_columns:
  assumes "df_setitem d name vals = Inr d'"
  shows "name \<in> set (columns d') \<and> set (columns d) \<subseteq> set (columns d')"
proof -
  have c: "columns (d\<lparr>nrows := k, cols := map (\<lambda>(n, c). (n, f c)) (cols d)\<rparr>) = columns d"
    for k :: nat and f :: "cell list \<Rightarrow> cell list"
    by (simp add: columns_def comp_def case_prod_unfold)
  from assms show ?thesis
    by (auto simp: df_setitem_def columns_put_column c split: if_splits)
qed

lemma enrich_Inr_columns:
  assumes "enrich_with_coords df0 = Inr df"
  shows "set coord_columns \<subseteq> set (columns df)"
proof -
  from assms obtain locs lats lons d1 where
    1: "df_setitem df0 (ustr ''Latitude'') (float_cells lats) = Inr d1"
    and 2: "df_setitem d1 (ustr ''Longitude'') (float_cells lons) = Inr df"
    by (auto simp: enrich_with_coords_def enrich_with_coords_obj_def df_copy_def Let_def
        split: sum.splits prod.splits)
  from df_setitem_columns [OF 1] df_setitem_columns [OF 2] show ?thesis
    by (auto simp: coord_columns_def)
qed

lemma df_drop_ok:
  assumes "set names \<subseteq> set (columns df)"
  shows "df_drop df names = Inr (df\<lparr>cols := filter (\<lambda>(n, c). n \<notin> set names) (cols df)\<rparr>)"
  using assms by (auto simp: df_drop_def list_all_iff)

lemma map_of_filter_names:
  "map_of (filter (\<lambda>(n, c). n \<notin> set names) xs) name
   = (if name \<in> set names then None else map_of xs name)"
  by (induction xs) auto

lemma df_drop_result:
  assumes "set names \<subseteq> set (columns df)"
  shows "\<exists>shown. df_drop df names = Inr shown \<and> nrows shown = nrows df
     \<and> columns shown = filter (\<lambda>n. n \<notin> set names) (columns df)
     \<and> (\<forall>name. name \<notin> set names \<longrightarrow> df_getitem shown name = df_getitem df name)
     \<and> (\<forall>name \<in> set names. df_getitem shown name = Inl KeyError)"
proof -
  let ?s = "df\<lparr>cols := filter (\<lambda>(n, c). n \<notin> set names) (cols df)\<rparr>"
  have c: "map fst (filter (\<lambda>(n, c). n \<notin> set names) xs) = filter (\<lambda>n. n \<notin> set names) (map fst xs)"
    for xs :: "(pystr \<times> cell list) list"
    by (induction xs) auto
  have "columns ?s = filter (\<lambda>n. n \<notin> set names) (columns df)"
    by (simp add: columns_def c)
  moreover have "\<forall>name. name \<notin> set names \<longrightarrow> df_getitem ?s name = df_getitem df name"
    by (simp add: df_getitem_def map_of_filter_names)
  moreover have "\<forall>name \<in> set names. df_getitem ?s name = Inl KeyError"
    by (simp add: df_getitem_def map_of_filter_names)
  ultimately show ?thesis
    using df_drop_ok [OF assms] by simp
qed

lemma build_bar_chart_Inr:
  "build_bar_chart df = Inr c \<Longrightarrow> \<exists>xs ys. c = PlotlyChart xs ys"
  by (auto simp: build_bar_chart_def split: sum.splits)

lemma build_map_Inr: "build_map fmt df = Inr c \<Longrightarrow> \<exists>m. c = FoliumStatic m"
  by (auto simp: build_map_def split: sum.splits)

lemma main_after_table:
  assumes "load_data fmt fs (resolve_csv_path fs script_dir) = Inr df0"
    and "enrich_with_coords df0 = Inr df" and "df_drop df coord_columns = Inr shown"
  shows "\<exists>rest. fst (main fmt fs script_dir)
           = [SetPageConfig page_title, Title page_heading, Header (ustr ''Data Table''),
              Dataframe shown] @ rest
         \<and> filter (\<lambda>c. case c of Dataframe d \<Rightarrow> True | _ \<Rightarrow> False) rest = []"
  using assms
  by (auto simp: main_def Let_def split: sum.splits
      dest!: build_bar_chart_Inr build_map_Inr)

text \<open>
  C7. Whenever loading and enriching succeed, the frame handed to the table view is the
  enriched frame without the columns Latitude and Longitude: it has the same rows, its
  columns are the other columns of the enriched frame in their order, each with the same
  cells in the same order, and the two coordinate columns are not in it. It is the fourth
  call made to the page, after the page configuration, the title and the header of the
  table, and no other call shows a frame.
\<close>

theorem main_table_view:
  assumes "load_data fmt fs (resolve_csv_path fs script_dir) = Inr df0"
    and "enrich_with_coords df0 = Inr df"
  shows "\<exists>shown rest. df_drop df coord_columns = Inr shown
     \<and> fst (main fmt fs script_dir)
         = [SetPageConfig page_title, Title page_heading, Header (ustr ''Data Table''),
            Dataframe shown] @ rest
     \<and> filter (\<lambda>c. case c of Dataframe d \<Rightarrow> True | _ \<Rightarrow> False) rest = []
     \<and> nrows shown = nrows df
     \<and> columns shown = filter (\<lambda>n. n \<notin> set coord_columns) (columns df)
     \<and> (\<forall>name. name \<notin> set coord_columns \<longrightarrow> df_getitem shown name = df_getitem df name)
     \<and> (\<forall>name \<in> set coord_columns. df_getitem shown name = Inl KeyError)"
proof -
  have "set coord_columns \<subseteq> set (columns df)"
    using assms(2) by (rule enrich_Inr_columns)
  from df_drop_result [OF this] obtain shown where
    d: "df_drop df coord_columns = Inr shown" "nrows shown = nrows df"
       "columns shown = filter (\<lambda>n. n \<notin> set coord_columns) (columns df)"
       "\<forall>name. name \<notin> set coord_columns \<longrightarrow> df_getitem shown name = df_getitem df name"
       "\<forall>name \<in> set coord_columns. df_getitem shown name = Inl KeyError"
    by blast
  from main_after_table [OF assms d(1)] obtain rest where
    m: "fst (main fmt fs script_dir)
         = [SetPageConfig page_title, Title page_heading, Header (ustr ''Data Table''),
            Dataframe shown] @ rest"
       "filter (\<lambda>c. case c of Dataframe d \<Rightarrow> True | _ \<Rightarrow> False) rest = []"
    by blast
  show ?thesis
    using d m by blast
qed

lemma sample_resolve: "resolve_csv_path sample_fs sample_dir = sample_dir @ [csv_name]"
  by (simp add: resolve_csv_path_def path_exists_def sample_fs_def)

lemma sample_df_name:
  "df_getitem sample_df (ustr ''Name'') = Inr [CStr (ustr ''Agency A''), CStr (ustr ''Agency B'')]"
  by (simp add: df_getitem_def sample_df_def ustr_def)

theorem main_table_view_witness:
  "\<exists>df0 df shown rest.
      load_data sample_fmt sample_fs (resolve_csv_path sample_fs sample_dir) = Inr df0
    \<and> enrich_with_coords df0 = Inr df
    \<and> df_drop df coord_columns = Inr shown
    \<and> fst (main sample_fmt sample_fs sample_dir)
        = [SetPageConfig page_title, Title page_heading, Header (ustr ''Data Table''),
           Dataframe shown] @ rest
    \<and> nrows shown = 2
    \<and> df_getitem shown (ustr ''Name'') = Inr [CStr (ustr ''Agency A''), CStr (ustr ''Agency B'')]
    \<and> df_getitem shown (ustr ''Latitude'') = Inl KeyError"
proof -
  have n: "nrows sample_df = 2"
    by (simp add: sample_df_def)
  have ne: "ustr ''Locality'' \<noteq> ustr ''Profit''" "ustr ''Name'' \<noteq> ustr ''Profit''"
    "ustr ''Name'' \<noteq> ustr ''Latitude''" "ustr ''Name'' \<noteq> ustr ''Longitude''"
    by (simp_all add: ustr_def)
  have nc: "ustr ''Name'' \<notin> set coord_columns"
    by (simp add: coord_columns_def ustr_def)
  from load_data_result
    [where df = sample_df and fs = sample_fs and p = "sample_dir @ [csv_name]"
       and raw = "[CStr (euro # ustr ''1,234 ''), CStr (ustr ''not disclosed'')]" and fmt = sample_fmt]
    wf_sample_df sample_fs_file sample_df_profit_text
  obtain df0 where
    l: "load_data sample_fmt sample_fs (sample_dir @ [csv_name]) = Inr df0" "wf_df df0"
       "nrows df0 = nrows sample_df"
    and lo: "\<forall>name. name \<noteq> ustr ''Profit'' \<longrightarrow> df_getitem df0 name = df_getitem sample_df name"
    by blast
  have loc: "df_getitem df0 (ustr ''Locality'')
             = Inr [CStr (ustr ''Waterloo''), CStr (ustr ''Unknown Town'')]"
    using lo ne(1) sample_df_locality by simp
  from enrich_result [OF l(2) loc] obtain df where
    e: "enrich_with_coords df0 = Inr df" "nrows df = nrows df0"
    and eo: "\<And>name. name \<noteq> ustr ''Latitude'' \<Longrightarrow> name \<noteq> ustr ''Longitude''
           \<Longrightarrow> df_getitem df name = df_getitem df0 name"
    by metis
  have l': "load_data sample_fmt sample_fs (resolve_csv_path sample_fs sample_dir) = Inr df0"
    using l(1) by (simp only: sample_resolve)
  from main_table_view [OF l' e(1)] obtain shown rest where
    t: "df_drop df coord_columns = Inr shown"
       "fst (main sample_fmt sample_fs sample_dir)
         = [SetPageConfig page_title, Title page_heading, Header (ustr ''Data Table''),
            Dataframe shown] @ rest"
       "nrows shown = nrows df"
    and k: "\<forall>name. name \<notin> set coord_columns \<longrightarrow> df_getitem shown name = df_getitem df name"
    and g: "\<forall>name \<in> set coord_columns. df_getitem shown name = Inl KeyError"
    by blast
  have a: "df_getitem shown (ustr ''Name'')
           = Inr [CStr (ustr ''Agency A''), CStr (ustr ''Agency B'')]"
    using k nc eo [OF ne(3,4)] lo ne(2) sample_df_name by simp
  have b: "df_getitem shown (ustr ''Latitude'') = Inl KeyError"
    using g coord_columns_mem(1) by blast
  have c: "nrows shown = 2"
    using t(3) e(2) l(3) n by simp
  show ?thesis
    using l' e(1) t(1,2) a b c by blast
qed

lemma main_depends_on_resolved:
  assumes "resolve_csv_path fs' script_dir = resolve_csv_path fs script_dir"
    and "fs' (resolve_csv_path fs script_dir) = fs (resolve_csv_path fs script_dir)"
  shows "main fmt fs' script_dir = main fmt fs script_dir"
  using assms by (simp add: main_def load_data_def read_csv_def)

lemma main_read_error:
  assumes "read_csv fs (resolve_csv_path fs script_dir) = Inl e"
  shows "main fmt fs script_dir = ([SetPageConfig page_title, Title page_heading], Some e)"
  using assms by (simp add: main_def load_data_def)

lemma main_file_missing:
  assumes "fs (resolve_csv_path fs script_dir) = None"
  shows "main fmt fs script_dir
         = ([SetPageConfig page_title, Title page_heading], Some FileNotFoundError)"
  using assms by (simp add: main_read_error read_csv_def)

lemma profit_ne_locality: "ustr ''Locality'' \<noteq> ustr ''Profit''"
  by (simp add: ustr_def)

lemma main_shows_file:
  assumes "fs (resolve_csv_path fs script_dir) = Some (Inr tbl)" and "wf_df tbl"
    and "df_getitem tbl profit_column = Inr raw"
    and "df_getitem tbl (ustr ''Locality'') = Inr locs"
  shows "\<exists>shown rest. fst (main fmt fs script_dir)
           = [SetPageConfig page_title, Title page_heading, Header (ustr ''Data Table''),
              Dataframe shown] @ rest
         \<and> nrows shown = nrows tbl
         \<and> (\<forall>name. name \<noteq> ustr ''Profit'' \<longrightarrow> name \<notin> set coord_columns \<longrightarrow>
                df_getitem shown name = df_getitem tbl name)"
proof -
  from load_data_result
    [where df = tbl and fs = fs and p = "resolve_csv_path fs script_dir" and raw = raw
       and fmt = fmt]
    assms(2,1,3)
  obtain df0 where
    l: "load_data fmt fs (resolve_csv_path fs script_dir) = Inr df0" "wf_df df0"
       "nrows df0 = nrows tbl"
    and lo: "\<forall>name. name \<noteq> ustr ''Profit'' \<longrightarrow> df_getitem df0 name = df_getitem tbl name"
    by blast
  have loc: "df_getitem df0 (ustr ''Locality'') = Inr locs"
    using lo profit_ne_locality assms(4) by simp
  from enrich_result [OF l(2) loc] obtain df where
    e: "enrich_with_coords df0 = Inr df" "nrows df = nrows df0"
    and eo: "\<And>name. name \<noteq> ustr ''Latitude'' \<Longrightarrow> name \<noteq> ustr ''Longitude''
           \<Longrightarrow> df_getitem df name = df_getitem df0 name"
    by metis
  have "set coord_columns \<subseteq> set (columns df)"
    using e(1) by (rule enrich_Inr_columns)
  from df_drop_result [OF this] obtain shown where
    d: "df_drop df coord_columns = Inr shown" "nrows shown = nrows df"
    and k: "\<forall>name. name \<notin> set coord_columns \<longrightarrow> df_getitem shown name = df_getitem df name"
    by blast
  from main_after_table [OF l(1) e(1) d(1)] obtain rest where
    m: "fst (main fmt fs script_dir)
         = [SetPageConfig page_title, Title page_heading, Header (ustr ''Data Table''),
            Dataframe shown] @ rest"
    by blast
  have "df_getitem shown name = df_getitem tbl name"
    if "name \<noteq> ustr ''Profit''" and "name \<notin> set coord_columns" for name
  proof -
    from that(2) have "name \<noteq> ustr ''Latitude''" and "name \<noteq> ustr ''Longitude''"
      using coord_columns_mem by blast+
    then have "df_getitem df name = df_getitem df0 name"
      by (rule eo)
    with k that lo show ?thesis
      by simp
  qed
  then show ?thesis
    using m d(2) e(2) l(3) by auto
qed

text \<open>
  C8. The file is looked for next to the script first: when that path exists it is the
  one loaded, and the run depends on the disk through it alone. Otherwise the path
  in the parent directory is loaded, and the run depends on what is there. What is loaded
  is what the run shows: a table at the chosen path, with its profit and Locality columns,
  reaches the table view with all its rows and columns, and a failure to read the chosen
  path ends the run with that error. When neither path exists, loading raises
  \<^verbatim>\<open>FileNotFoundError\<close> and the run ends there: the page has got its configuration and its
  title, and no header, table, chart or map.
\<close>

theorem main_file_resolution:
  "(path_exists fs (script_dir @ [csv_name]) \<longrightarrow>
       resolve_csv_path fs script_dir = script_dir @ [csv_name]
     \<and> (\<forall>fs'. fs' (script_dir @ [csv_name]) = fs (script_dir @ [csv_name]) \<longrightarrow>
            main fmt fs' script_dir = main fmt fs script_dir))
   \<and> (\<not> path_exists fs (script_dir @ [csv_name]) \<longrightarrow>
       resolve_csv_path fs script_dir = parent script_dir @ [csv_name]
     \<and> (\<forall>fs'. \<not> path_exists fs' (script_dir @ [csv_name]) \<longrightarrow>
            fs' (parent script_dir @ [csv_name]) = fs (parent script_dir @ [csv_name]) \<longrightarrow>
            main fmt fs' script_dir = main fmt fs script_dir))
   \<and> (\<not> path_exists fs (script_dir @ [csv_name]) \<longrightarrow>
      \<not> path_exists fs (parent script_dir @ [csv_name]) \<longrightarrow>
       main fmt fs script_dir
       = ([SetPageConfig page_title, Title page_heading], Some FileNotFoundError))
   \<and> (\<forall>e. read_csv fs (resolve_csv_path fs script_dir) = Inl e \<longrightarrow>
          main fmt fs script_dir = ([SetPageConfig page_title, Title page_heading], Some e))
   \<and> (\<forall>tbl raw locs.
          fs (resolve_csv_path fs script_dir) = Some (Inr tbl) \<longrightarrow> wf_df tbl \<longrightarrow>
          df_getitem tbl profit_column = Inr raw \<longrightarrow>
          df_getitem tbl (ustr ''Locality'') = Inr locs \<longrightarrow>
          (\<exists>shown rest. fst (main fmt fs script_dir)
               = [SetPageConfig page_title, Title page_heading, Header (ustr ''Data Table''),
                  Dataframe shown] @ rest
             \<and> nrows shown = nrows tbl
             \<and> (\<forall>name. name \<noteq> ustr ''Profit'' \<longrightarrow> name \<notin> set coord_columns \<longrightarrow>
                    df_getitem shown name = df_getitem tbl name)))"
proof -
  have a: "resolve_csv_path fs script_dir = script_dir @ [csv_name]
     \<and> (\<forall>fs'. fs' (script_dir @ [csv_name]) = fs (script_dir @ [csv_name]) \<longrightarrow>
            main fmt fs' script_dir = main fmt fs script_dir)"
    if e: "path_exists fs (script_dir @ [csv_name])"
  proof -
    have r: "resolve_csv_path fs script_dir = script_dir @ [csv_name]"
      using e by (simp add: resolve_csv_path_def)
    have "main fmt fs' script_dir = main fmt fs script_dir"
      if s: "fs' (script_dir @ [csv_name]) = fs (script_dir @ [csv_name])" for fs'
    proof -
      have "path_exists fs' (script_dir @ [csv_name])"
        using e s by (simp add: path_exists_def)
      then have "resolve_csv_path fs' script_dir = resolve_csv_path fs script_dir"
        using r by (simp add: resolve_csv_path_def)
      then show ?thesis
        using s r by (simp add: main_depends_on_resolved)
    qed
    with r show ?thesis by blast
  qed
  have b: "resolve_csv_path fs script_dir = parent script_dir @ [csv_name]
     \<and> (\<forall>fs'. \<not> path_exists fs' (script_dir @ [csv_name]) \<longrightarrow>
            fs' (parent script_dir @ [csv_name]) = fs (parent script_dir @ [csv_name]) \<longrightarrow>
            main fmt fs' script_dir = main fmt fs script_dir)"
    if e: "\<not> path_exists fs (script_dir @ [csv_name])"
  proof -
    have r: "resolve_csv_path fs script_dir = parent script_dir @ [csv_name]"
      using e by (simp add: resolve_csv_path_def)
    have "main fmt fs' script_dir = main fmt fs script_dir"
      if n: "\<not> path_exists fs' (script_dir @ [csv_name])"
        and s: "fs' (parent script_dir @ [csv_name]) = fs (parent script_dir @ [csv_name])" for fs'
    proof -
      have "resolve_csv_path fs' script_dir = resolve_csv_path fs script_dir"
        using n r by (simp add: resolve_csv_path_def)
      then show ?thesis
        using s r by (simp add: main_depends_on_resolved)
    qed
    with r show ?thesis by blast
  qed
  have c: "main fmt fs script_dir
       = ([SetPageConfig page_title, Title page_heading], Some FileNotFoundError)"
    if e: "\<not> path_exists fs (script_dir @ [csv_name])"
      and p: "\<not> path_exists fs (parent script_dir @ [csv_name])"
  proof -
    have "resolve_csv_path fs script_dir = parent script_dir @ [csv_name]"
      using e by (simp add: resolve_csv_path_def)
    then have "fs (resolve_csv_path fs script_dir) = None"
      using p by (simp add: path_exists_def)
    then show ?thesis
      by (rule main_file_missing)
  qed
  have d: "\<forall>e. read_csv fs (resolve_csv_path fs script_dir) = Inl e \<longrightarrow>
          main fmt fs script_dir = ([SetPageConfig page_title, Title page_heading], Some e)"
    by (simp add: main_read_error)
  have f: "\<forall>tbl raw locs.
          fs (resolve_csv_path fs script_dir) = Some (Inr tbl) \<longrightarrow> wf_df tbl \<longrightarrow>
          df_getitem tbl profit_column = Inr raw \<longrightarrow>
          df_getitem tbl (ustr ''Locality'') = Inr locs \<longrightarrow>
          (\<exists>shown rest. fst (main fmt fs script_dir)
               = [SetPageConfig page_title, Title page_heading, Header (ustr ''Data Table''),
                  Dataframe shown] @ rest
             \<and> nrows shown = nrows tbl
             \<and> (\<forall>name. name \<noteq> ustr ''Profit'' \<longrightarrow> name \<notin> set coord_columns \<longrightarrow>
                    df_getitem shown name = df_getitem tbl name))"
    using main_shows_file [where fs = fs and script_dir = script_dir and fmt = fmt]
    by blast
  show ?thesis
    using a b c d f by blast
qed

theorem main_file_resolution_witness:
  "path_exists sample_fs_both (sample_dir @ [csv_name])
   \<and> path_exists sample_fs_both (parent sample_dir @ [csv_name])
   \<and> resolve_csv_path sample_fs_both sample_dir = sample_dir @ [csv_name]
   \<and> (\<exists>shown rest. fst (main sample_fmt sample_fs_both sample_dir)
          = [SetPageConfig page_title, Title page_heading, Header (ustr ''Data Table''),
             Dataframe shown] @ rest
        \<and> nrows shown = 2
        \<and> df_getitem shown (ustr ''Name'')
            = Inr [CStr (ustr ''Agency A''), CStr (ustr ''Agency B'')])
   \<and> \<not> path_exists sample_fs_parent (sample_dir @ [csv_name])
   \<and> path_exists sample_fs_parent (parent sample_dir @ [csv_name])
   \<and> resolve_csv_path sample_fs_parent sample_dir = parent sample_dir @ [csv_name]
   \<and> (\<exists>shown rest. fst (main sample_fmt sample_fs_parent sample_dir)
          = [SetPageConfig page_title, Title page_heading, Header (ustr ''Data Table''),
             Dataframe shown] @ rest
        \<and> nrows shown = 2)
   \<and> \<not> path_exists sample_fs_empty (sample_dir @ [csv_name])
   \<and> \<not> path_exists sample_fs_empty (parent sample_dir @ [csv_name])
   \<and> main sample_fmt sample_fs_empty sample_dir
       = ([SetPageConfig page_title, Title page_heading], Some FileNotFoundError)"
proof -
  let ?shows = "\<lambda>fs tbl. \<exists>shown rest. fst (main sample_fmt fs sample_dir)
          = [SetPageConfig page_title, Title page_heading, Header (ustr ''Data Table''),
             Dataframe shown] @ rest
        \<and> nrows shown = nrows tbl
        \<and> (\<forall>name. name \<noteq> ustr ''Profit'' \<longrightarrow> name \<notin> set coord_columns \<longrightarrow>
               df_getitem shown name = df_getitem tbl name)"
  have n: "nrows sample_df = 2"
    by (simp add: sample_df_def)
  have nm: "ustr ''Name'' \<noteq> ustr ''Profit''" "ustr ''Name'' \<notin> set coord_columns"
    by (simp_all add: ustr_def coord_columns_def)
  have 1: "path_exists sample_fs_both (sample_dir @ [csv_name])"
    "path_exists sample_fs_both (parent sample_dir @ [csv_name])"
    by (simp_all add: path_exists_def sample_fs_both_def sample_dir_def parent_def)
  have 2: "\<not> path_exists sample_fs_parent (sample_dir @ [csv_name])"
    by (simp add: path_exists_def sample_fs_parent_def sample_dir_def)
  have 3: "path_exists sample_fs_parent (parent sample_dir @ [csv_name])"
    by (simp add: path_exists_def sample_fs_parent_def sample_dir_def parent_def)
  have 4: "\<not> path_exists sample_fs_empty (sample_dir @ [csv_name])"
    "\<not> path_exists sample_fs_empty (parent sample_dir @ [csv_name])"
    by (simp_all add: path_exists_def sample_fs_empty_def)
  note both = main_file_resolution
    [where fs = sample_fs_both and script_dir = sample_dir and fmt = sample_fmt]
  note par = main_file_resolution
    [where fs = sample_fs_parent and script_dir = sample_dir and fmt = sample_fmt]
  note none = main_file_resolution
    [where fs = sample_fs_empty and script_dir = sample_dir and fmt = sample_fmt]
  have a: "resolve_csv_path sample_fs_both sample_dir = sample_dir @ [csv_name]"
    using both 1(1) by blast
  have b: "resolve_csv_path sample_fs_parent sample_dir = parent sample_dir @ [csv_name]"
    using par 2 by blast
  have c: "main sample_fmt sample_fs_empty sample_dir
       = ([SetPageConfig page_title, Title page_heading], Some FileNotFoundError)"
    using none 4 by blast
  have fa: "sample_fs_both (resolve_csv_path sample_fs_both sample_dir) = Some (Inr sample_df)"
    by (simp only: a) (simp add: sample_fs_both_def)
  have fb: "sample_fs_parent (resolve_csv_path sample_fs_parent sample_dir)
            = Some (Inr sample_df)"
    by (simp only: b) (simp add: sample_fs_parent_def sample_dir_def parent_def)
  have "\<forall>tbl raw locs.
          sample_fs_both (resolve_csv_path sample_fs_both sample_dir) = Some (Inr tbl) \<longrightarrow>
          wf_df tbl \<longrightarrow> df_getitem tbl profit_column = Inr raw \<longrightarrow>
          df_getitem tbl (ustr ''Locality'') = Inr locs \<longrightarrow> ?shows sample_fs_both tbl"
    using both by blast
  with fa wf_sample_df sample_df_profit_text sample_df_locality
  have "?shows sample_fs_both sample_df"
    by blast
  then obtain shown rest where
    sa: "fst (main sample_fmt sample_fs_both sample_dir)
          = [SetPageConfig page_title, Title page_heading, Header (ustr ''Data Table''),
             Dataframe shown] @ rest"
       "nrows shown = nrows sample_df"
    and ka: "\<forall>name. name \<noteq> ustr ''Profit'' \<longrightarrow> name \<notin> set coord_columns \<longrightarrow>
               df_getitem shown name = df_getitem sample_df name"
    by blast
  from ka nm have "df_getitem shown (ustr ''Name'') = df_getitem sample_df (ustr ''Name'')"
    by blast
  with sa n sample_df_name
  have d: "\<exists>shown rest. fst (main sample_fmt sample_fs_both sample_dir)
          = [SetPageConfig page_title, Title page_heading, Header (ustr ''Data Table''),
             Dataframe shown] @ rest
        \<and> nrows shown = 2
        \<and> df_getitem shown (ustr ''Name'')
            = Inr [CStr (ustr ''Agency A''), CStr (ustr ''Agency B'')]"
    by auto
  have "\<forall>tbl raw locs.
          sample_fs_parent (resolve_csv_path sample_fs_parent sample_dir) = Some (Inr tbl) \<longrightarrow>
          wf_df tbl \<longrightarrow> df_getitem tbl profit_column = Inr raw \<longrightarrow>
          df_getitem tbl (ustr ''Locality'') = Inr locs \<longrightarrow> ?shows sample_fs_parent tbl"
    using par by blast
  with fb wf_sample_df sample_df_profit_text sample_df_locality
  have "?shows sample_fs_parent sample_df"
    by blast
  with n have e: "\<exists>shown rest. fst (main sample_fmt sample_fs_parent sample_dir)
          = [SetPageConfig page_title, Title page_heading, Header (ustr ''Data Table''),
             Dataframe shown] @ rest
        \<and> nrows shown = 2"
    by auto
  show ?thesis
    using 1 2 3 4 a b c d e by blast
qed

end
